theory Spec2Isabelle
  imports Main
begin

section \<open>JSON values and the JavaScript operations applied to them\<close>

text \<open>
  The program (\<^verbatim>\<open>src/api-test.js\<close>) handles values that come out of \<^verbatim>\<open>JSON.parse\<close>:
  the environment file, the test-suite file, the report file and the JSON texts typed at
  the prompts. They are modelled as the datatype \<open>json\<close>; \<open>None :: json option\<close> stands
  for JavaScript's \<^verbatim>\<open>undefined\<close>. Numbers are integers here: the only numbers the
  program looks at are HTTP status codes and the truthiness of a number. An object is the
  list of its own properties, as the parser yields them (distinct keys); the order in
  which a written object lists its keys is not modelled.
\<close>

datatype json =
    JNull
  | JBool bool
  | JNum int
  | JStr string
  | JArr "json list"
  | JObj "(string \<times> json) list"

datatype js_error = ENOENT | SyntaxError | TypeError | RangeError | SchemaError

text \<open>JavaScript truthiness, as used by \<^verbatim>\<open>!x\<close>, \<^verbatim>\<open>x || y\<close> and \<^verbatim>\<open>if (x)\<close>.\<close>

fun truthy :: "json \<Rightarrow> bool" where
  "truthy JNull = False"
| "truthy (JBool b) = b"
| "truthy (JNum n) = (n \<noteq> 0)"
| "truthy (JStr s) = (s \<noteq> [])"
| "truthy (JArr xs) = True"
| "truthy (JObj kvs) = True"

definition truthy_opt :: "json option \<Rightarrow> bool" where
  "truthy_opt v = (case v of None \<Rightarrow> False | Some j \<Rightarrow> truthy j)"

text \<open>
  Reading a property \<^verbatim>\<open>v.k\<close>. Reading from \<^verbatim>\<open>undefined\<close> or \<^verbatim>\<open>null\<close> throws a
  TypeError; an object yields its own property or \<^verbatim>\<open>undefined\<close>; every other value
  yields \<^verbatim>\<open>undefined\<close>. The keys the program reads (\<^verbatim>\<open>name\<close>, \<^verbatim>\<open>request\<close>,
  \<^verbatim>\<open>expectedStatus\<close>, \<^verbatim>\<open>expectedSchema\<close>, \<^verbatim>\<open>baseUrl\<close>, \<^verbatim>\<open>method\<close>, \<^verbatim>\<open>url\<close>,
  \<^verbatim>\<open>headers\<close>, \<^verbatim>\<open>query\<close>, \<^verbatim>\<open>body\<close>, \<^verbatim>\<open>passed\<close>, \<^verbatim>\<open>result\<close>, \<^verbatim>\<open>status\<close>,
  \<^verbatim>\<open>error\<close>) are none of the names that arrays, strings or \<^verbatim>\<open>Object.prototype\<close>
  define, so no inherited property is ever found.
\<close>

fun own :: "json \<Rightarrow> string \<Rightarrow> json option" where
  "own (JObj kvs) k = map_of kvs k"
| "own v k = None"

fun get_prop :: "json option \<Rightarrow> string \<Rightarrow> js_error + json option" where
  "get_prop None k = Inl TypeError"
| "get_prop (Some JNull) k = Inl TypeError"
| "get_prop (Some v) k = Inr (own v k)"

text \<open>\<^verbatim>\<open>Object.keys(v).length\<close> for a parsed JSON value \<open>v\<close>.\<close>

fun keys_count :: "json \<Rightarrow> js_error + nat" where
  "keys_count JNull = Inl TypeError"
| "keys_count (JObj kvs) = Inr (length kvs)"
| "keys_count (JArr xs) = Inr (length xs)"
| "keys_count (JStr s) = Inr (length s)"
| "keys_count v = Inr 0"

text \<open>
  Converting a parsed JSON value to a string, as a template literal does with
  \<^verbatim>\<open>${v}\<close>. An object is converted through its \<^verbatim>\<open>toString\<close>; an own property of that
  name, which in a parsed value is never a function, hides the inherited method, and the
  conversion throws a TypeError. An array converts its elements (\<^verbatim>\<open>null\<close> gives the empty
  string). \<^verbatim>\<open>undefined\<close> and every other value convert.
\<close>

fun to_string_ok :: "json \<Rightarrow> bool" where
  "to_string_ok (JArr xs) = list_all to_string_ok xs"
| "to_string_ok (JObj kvs) = (map_of kvs ''toString'' = None)"
| "to_string_ok v = True"

definition interpolate :: "json option \<Rightarrow> js_error + unit" where
  "interpolate v =
     (case v of
        None \<Rightarrow> Inr ()
      | Some j \<Rightarrow> if to_string_ok j then Inr () else Inl TypeError)"

text \<open>
  The array indices among the property names: the canonical decimal numerals below
  \<open>2^32 - 1\<close>.
\<close>

fun digits_value :: "string \<Rightarrow> nat \<Rightarrow> nat option" where
  "digits_value [] acc = Some acc"
| "digits_value (c # cs) acc =
     (if 48 \<le> (of_char c :: nat) \<and> (of_char c :: nat) \<le> 57
      then digits_value cs (10 * acc + (of_char c - 48))
      else None)"

definition array_index :: "string \<Rightarrow> nat option" where
  "array_index k =
     (if k = [] \<or> (hd k = CHR ''0'' \<and> k \<noteq> ''0'') then None
      else case digits_value k 0 of
             None \<Rightarrow> None
           | Some n \<Rightarrow> if n < 4294967295 then Some n else None)"

fun upd :: "(string \<times> json) list \<Rightarrow> string \<Rightarrow> json \<Rightarrow> (string \<times> json) list" where
  "upd [] k v = [(k, v)]"
| "upd ((k', v') # kvs) k v = (if k' = k then (k, v) # kvs else (k', v') # upd kvs k v)"

text \<open>
  The assignment \<^verbatim>\<open>envs[name] = env\<close> of \<^verbatim>\<open>saveEnv\<close>, where \<open>env\<close> is an object, and
  what of it a later \<^verbatim>\<open>JSON.stringify(envs)\<close> writes (own enumerable properties only).
  \<^item> On \<^verbatim>\<open>null\<close> the assignment throws a TypeError.
  \<^item> On an object, the name \<^verbatim>\<open>__proto__\<close> that is not an own property reaches the
    setter inherited from \<^verbatim>\<open>Object.prototype\<close>: the prototype of \<open>envs\<close> is replaced
    and no own property is created. Every other name sets an own property.
  \<^item> On an array, an index sets the element (the gap, if any, is written as
    \<^verbatim>\<open>null\<close>s), \<^verbatim>\<open>length\<close> throws a RangeError (an object is no valid length), and
    any other name sets a property that is not written.
  \<^item> On a number, a string or a boolean the assignment is ignored (the file is not in
    strict mode).
\<close>

fun assign :: "json \<Rightarrow> string \<Rightarrow> json \<Rightarrow> js_error + json" where
  "assign JNull k v = Inl TypeError"
| "assign (JObj kvs) k v =
     (if k = ''__proto__'' \<and> map_of kvs k = None then Inr (JObj kvs)
      else Inr (JObj (upd kvs k v)))"
| "assign (JArr xs) k v =
     (if k = ''length'' then Inl RangeError
      else case array_index k of
             None \<Rightarrow> Inr (JArr xs)
           | Some i \<Rightarrow>
               if i < length xs then Inr (JArr (xs[i := v]))
               else Inr (JArr (xs @ replicate (i - length xs) JNull @ [v])))"
| "assign prim k v = Inr prim"

section \<open>The world: files, the network, and what the program does to them\<close>

text \<open>
  A text is known by what \<^verbatim>\<open>JSON.parse\<close> makes of it: it is not JSON, or it parses to a
  JSON value. A file is missing (\<open>None\<close>) or holds a text. \<^verbatim>\<open>fs.writeJson\<close> replaces the whole
  file by the text of a value, which parses back to that value; a write that fails
  (a full disk, a missing permission) is outside the model. A path stands for the file it
  resolves to.
\<close>

datatype json_text = NotJson | JsonText json

type_synonym path = string

definition ENV_FILE :: path where
  "ENV_FILE = ''~/.api_test_env.json''"

definition REPORT_FILE :: path where
  "REPORT_FILE = ''./api_test_report.json''"

text \<open>
  The configuration handed to \<^verbatim>\<open>axios\<close> (the field \<open>req_method\<close> is the \<^verbatim>\<open>method\<close> of
  the source, \<open>req_headers\<close> its \<^verbatim>\<open>headers\<close>) and what \<^verbatim>\<open>axios\<close> makes of it.
\<close>

record request =
  req_method :: "json option"
  url :: "json option"
  req_headers :: json
  query :: json
  body :: json

datatype axios_result =
    Resolved int "(string \<times> string) list" json
  | Rejected string

text \<open>The object \<^verbatim>\<open>sendRequest\<close> returns; a field that is \<open>None\<close> is absent.\<close>

record outcome =
  status :: "int option"
  headers :: "(string \<times> string) list option"
  data :: "json option"
  responseTime :: "string option"
  error :: "string option"

record validation =
  valid :: bool
  errors :: "json list"

record environment =
  baseUrl :: string
  apiKey :: string

text \<open>
  The lines written to the console, one constructor for each \<^verbatim>\<open>console.log\<close> of the
  source with the values it interpolates. Colours and the rendering of a value as text
  belong to the libraries.
\<close>

datatype line =
    EnvSaved string
  | SendingRequest
  | ErrorLine string
  | ResponseLabel
  | StatusLine "int option"
  | HeadersLine "(string \<times> string) list option"
  | BodyLine "json option"
  | ResponseTimeLine "string option"
  | SchemaValidationLabel
  | ValidLine bool
  | ValidationErrors "json list"
  | RunningTest "json option"
  | Verdict bool
  | StatusExpected "int option" "json option"
  | ReportSaved
  | ReportLabel
  | ReportEntry "json option" bool
  | ReportStatus "json option"
  | ReportError "json option"
  | Summary nat nat

datatype prompt =
    AskUrl json
  | AskMethod
  | AskHeaders
  | AskQuery
  | AskBody
  | AskSchema
  | AskBaseUrl
  | AskApiKey

datatype event =
    Http request
  | Validate "json option" json
  | Write path json
  | Print line
  | Ask prompt

record 's world =
  files :: "path \<Rightarrow> json_text option"
  server :: 's
  trace :: "event list"

text \<open>
  A computation changes the world and either returns a value or throws; what it did
  before throwing stays done.
\<close>

type_synonym ('a, 's) io = "'s world \<Rightarrow> (js_error + 'a) \<times> 's world"

definition io_return :: "'a \<Rightarrow> ('a, 's) io" where
  "io_return a w = (Inr a, w)"

definition io_lift :: "js_error + 'a \<Rightarrow> ('a, 's) io" where
  "io_lift r w = (r, w)"

definition io_bind :: "('a, 's) io \<Rightarrow> ('a \<Rightarrow> ('b, 's) io) \<Rightarrow> ('b, 's) io" where
  "io_bind m f w = (case m w of (Inl e, w') \<Rightarrow> (Inl e, w') | (Inr a, w') \<Rightarrow> f a w')"

definition io_catch :: "('a, 's) io \<Rightarrow> (js_error \<Rightarrow> ('a, 's) io) \<Rightarrow> ('a, 's) io" where
  "io_catch m h w = (case m w of (Inl e, w') \<Rightarrow> h e w' | (Inr a, w') \<Rightarrow> (Inr a, w'))"

definition emit :: "event \<Rightarrow> (unit, 's) io" where
  "emit e w = (Inr (), w\<lparr>trace := trace w @ [e]\<rparr>)"

definition readJson :: "path \<Rightarrow> (json, 's) io" where
  "readJson p w =
     (case files w p of
        None \<Rightarrow> (Inl ENOENT, w)
      | Some NotJson \<Rightarrow> (Inl SyntaxError, w)
      | Some (JsonText v) \<Rightarrow> (Inr v, w))"

definition writeJson :: "path \<Rightarrow> json \<Rightarrow> (unit, 's) io" where
  "writeJson p v w =
     (Inr (), w\<lparr>files := (files w)(p \<mapsto> JsonText v), trace := trace w @ [Write p v]\<rparr>)"

section \<open>Environment Store\<close>

definition loadEnv :: "(json, 's) io" where
  "loadEnv = io_catch (readJson ENV_FILE) (\<lambda>e. io_return (JObj []))"

definition environment_json :: "environment \<Rightarrow> json" where
  "environment_json env = JObj [(''baseUrl'', JStr (baseUrl env)), (''apiKey'', JStr (apiKey env))]"

definition saveEnv :: "string \<Rightarrow> environment \<Rightarrow> (unit, 's) io" where
  "saveEnv name env =
     io_bind loadEnv (\<lambda>envs.
     io_bind (io_lift (assign envs name (environment_json env))) (\<lambda>envs'.
     io_bind (writeJson ENV_FILE envs') (\<lambda>u.
     emit (Print (EnvSaved name)))))"

section \<open>Request Executor\<close>

text \<open>
  The parameter pattern \<^verbatim>\<open>{ method, url, headers = {}, query = {}, body = {} }\<close>:
  destructuring \<^verbatim>\<open>undefined\<close> or \<^verbatim>\<open>null\<close> throws before the \<^verbatim>\<open>try\<close> block is
  entered; a default applies where the property is \<^verbatim>\<open>undefined\<close>.
\<close>

definition or_empty :: "json option \<Rightarrow> json" where
  "or_empty v = (case v of None \<Rightarrow> JObj [] | Some j \<Rightarrow> j)"

fun destructure :: "json option \<Rightarrow> js_error + request" where
  "destructure None = Inl TypeError"
| "destructure (Some JNull) = Inl TypeError"
| "destructure (Some v) =
     Inr \<lparr>req_method = own v ''method'', url = own v ''url'',
          req_headers = or_empty (own v ''headers''), query = or_empty (own v ''query''),
          body = or_empty (own v ''body'')\<rparr>"

text \<open>
  The network is a parameter: \<open>net\<close> answers a request in a state of the remote side and
  yields the next state. With \<^verbatim>\<open>validateStatus: () => true\<close> every received response
  resolves, whatever its status; a transport failure rejects with a message.
\<close>

definition axios :: "(request \<Rightarrow> 's \<Rightarrow> axios_result \<times> 's) \<Rightarrow> request \<Rightarrow> (axios_result, 's) io" where
  "axios net req w =
     (case net req (server w) of
        (r, s') \<Rightarrow> (Inr r, w\<lparr>server := s', trace := trace w @ [Http req]\<rparr>))"

definition response_time :: "(string \<times> string) list \<Rightarrow> string" where
  "response_time hs =
     (case map_of hs ''x-response-time'' of
        None \<Rightarrow> ''N/A''
      | Some t \<Rightarrow> if t \<noteq> [] then t else ''N/A'')"

text \<open>
  The two \<^verbatim>\<open>return\<close> statements of \<^verbatim>\<open>sendRequest\<close>: the one of the \<^verbatim>\<open>try\<close> block for a
  response, the one of the \<^verbatim>\<open>catch\<close> block for a rejection.
\<close>

fun outcome_of :: "axios_result \<Rightarrow> outcome" where
  "outcome_of (Resolved st hs d) =
     \<lparr>status = Some st, headers = Some hs, data = Some d,
      responseTime = Some (response_time hs), error = None\<rparr>"
| "outcome_of (Rejected msg) =
     \<lparr>status = None, headers = None, data = None,
      responseTime = None, error = Some msg\<rparr>"

definition sendRequest ::
  "(request \<Rightarrow> 's \<Rightarrow> axios_result \<times> 's) \<Rightarrow> json option \<Rightarrow> (outcome, 's) io" where
  "sendRequest net arg =
     io_bind (io_lift (destructure arg)) (\<lambda>req.
     io_bind (axios net req) (\<lambda>r.
     io_return (outcome_of r)))"

section \<open>Test Suite Runner\<close>

record test_result =
  name :: "json option"
  passed :: bool
  result :: outcome

text \<open>Truthiness of \<^verbatim>\<open>result.error\<close>, a string or \<^verbatim>\<open>undefined\<close>.\<close>

definition truthy_str :: "string option \<Rightarrow> bool" where
  "truthy_str e = (case e of None \<Rightarrow> False | Some s \<Rightarrow> s \<noteq> [])"

text \<open>\<^verbatim>\<open>result.status === test.expectedStatus\<close>.\<close>

definition strict_eq :: "int option \<Rightarrow> json option \<Rightarrow> bool" where
  "strict_eq st ex = (case st of None \<Rightarrow> ex = None | Some n \<Rightarrow> ex = Some (JNum n))"

text \<open>
  Lines 133 and 134: \<^verbatim>\<open>&&\<close> and \<^verbatim>\<open>||\<close> evaluate from the left and stop as soon as
  the value is known, so the validator is called only when there is no (truthy) error,
  the status matches and the schema is truthy. The validator is a parameter; it may
  throw.
\<close>

definition check_passed ::
  "(json option \<Rightarrow> json \<Rightarrow> js_error + validation) \<Rightarrow> json \<Rightarrow> outcome \<Rightarrow> (bool, 's) io" where
  "check_passed validate test res =
     (if truthy_str (error res) then io_return False
      else if \<not> strict_eq (status res) (own test ''expectedStatus'') then io_return False
      else case own test ''expectedSchema'' of
             None \<Rightarrow> io_return True
           | Some schema \<Rightarrow>
               if \<not> truthy schema then io_return True
               else io_bind (emit (Validate (data res) schema)) (\<lambda>u.
                    io_bind (io_lift (validate (data res) schema)) (\<lambda>v.
                    io_return (valid v))))"

text \<open>
  The body of the \<^verbatim>\<open>for\<close> loop, lines 131 to 144. The template literals of lines 131
  and 143 convert \<^verbatim>\<open>test.name\<close> and \<^verbatim>\<open>test.expectedStatus\<close> to strings before the line
  is printed; \<^verbatim>\<open>result.status\<close> and \<^verbatim>\<open>result.error\<close> are a number, a string or
  \<^verbatim>\<open>undefined\<close> and always convert.
\<close>

definition run_case ::
  "(request \<Rightarrow> 's \<Rightarrow> axios_result \<times> 's) \<Rightarrow> (json option \<Rightarrow> json \<Rightarrow> js_error + validation) \<Rightarrow>
   json \<Rightarrow> (test_result, 's) io" where
  "run_case net validate test =
     io_bind (io_lift (get_prop (Some test) ''name'')) (\<lambda>nm.
     io_bind (io_lift (interpolate nm)) (\<lambda>u.
     io_bind (emit (Print (RunningTest nm))) (\<lambda>u.
     io_bind (sendRequest net (own test ''request'')) (\<lambda>res.
     io_bind (check_passed validate test res) (\<lambda>p.
     io_bind (emit (Print (Verdict p))) (\<lambda>u.
     io_bind (io_lift (interpolate (own test ''expectedStatus''))) (\<lambda>u.
     io_bind (emit (Print (StatusExpected (status res) (own test ''expectedStatus'')))) (\<lambda>u.
     io_bind (if truthy_str (error res)
              then emit (Print (ErrorLine (case error res of None \<Rightarrow> [] | Some m \<Rightarrow> m)))
              else io_return ()) (\<lambda>u.
     io_return \<lparr>name = nm, passed = p, result = res\<rparr>)))))))))"

fun run_cases ::
  "(request \<Rightarrow> 's \<Rightarrow> axios_result \<times> 's) \<Rightarrow> (json option \<Rightarrow> json \<Rightarrow> js_error + validation) \<Rightarrow>
   json list \<Rightarrow> test_result list \<Rightarrow> (test_result list, 's) io" where
  "run_cases net validate [] results = io_return results"
| "run_cases net validate (test # tests) results =
     io_bind (run_case net validate test) (\<lambda>r. run_cases net validate tests (results @ [r]))"

text \<open>
  \<^verbatim>\<open>for (const test of tests)\<close>: an array yields its elements, a string its characters;
  no other JSON value is iterable.
\<close>

fun iterate :: "json \<Rightarrow> js_error + json list" where
  "iterate (JArr xs) = Inr xs"
| "iterate (JStr s) = Inr (map (\<lambda>c. JStr [c]) s)"
| "iterate v = Inl TypeError"

text \<open>What \<^verbatim>\<open>JSON.stringify\<close> writes of a result: the fields that are not \<^verbatim>\<open>undefined\<close>.\<close>

definition field :: "string \<Rightarrow> 'a option \<Rightarrow> ('a \<Rightarrow> json) \<Rightarrow> (string \<times> json) list" where
  "field k v enc = (case v of None \<Rightarrow> [] | Some x \<Rightarrow> [(k, enc x)])"

definition outcome_json :: "outcome \<Rightarrow> json" where
  "outcome_json res =
     JObj (field ''status'' (status res) JNum
         @ field ''headers'' (headers res) (\<lambda>hs. JObj (map (\<lambda>(k, v). (k, JStr v)) hs))
         @ field ''data'' (data res) (\<lambda>d. d)
         @ field ''responseTime'' (responseTime res) JStr
         @ field ''error'' (error res) JStr)"

definition result_json :: "test_result \<Rightarrow> json" where
  "result_json r =
     JObj (field ''name'' (name r) (\<lambda>n. n)
         @ [(''passed'', JBool (passed r)), (''result'', outcome_json (result r))])"

definition runTestSuite ::
  "(request \<Rightarrow> 's \<Rightarrow> axios_result \<times> 's) \<Rightarrow> (json option \<Rightarrow> json \<Rightarrow> js_error + validation) \<Rightarrow>
   path \<Rightarrow> (unit, 's) io" where
  "runTestSuite net validate file =
     io_bind (readJson file) (\<lambda>tests.
     io_bind (io_lift (iterate tests)) (\<lambda>ts.
     io_bind (run_cases net validate ts []) (\<lambda>results.
     io_bind (writeJson REPORT_FILE (JArr (map result_json results))) (\<lambda>u.
     emit (Print ReportSaved)))))"

section \<open>Interactive Session\<close>

text \<open>
  What the user does at the prompts. At the URL prompt, \<open>None\<close> is the empty input, for
  which \<^verbatim>\<open>inquirer\<close> takes the default. At a JSON prompt the filter
  \<^verbatim>\<open>input => JSON.parse(input)\<close> runs on the value taken; when it throws, \<^verbatim>\<open>inquirer\<close>
  shows the error and asks the question again. So what the user does there is either to
  leave the prompt empty at once, which takes the default \<^verbatim>\<open>'{}'\<close>, or to type some
  number of texts that are refused and then a text that parses to a JSON value.
\<close>

datatype json_entry = TakeDefault | Typed nat json

datatype http_method = GET | POST | PUT | DELETE

fun method_name :: "http_method \<Rightarrow> string" where
  "method_name GET = ''GET''"
| "method_name POST = ''POST''"
| "method_name PUT = ''PUT''"
| "method_name DELETE = ''DELETE''"

record session_input =
  url_input :: "string option"
  method_choice :: http_method
  headers_input :: json_entry
  query_input :: json_entry
  body_input :: json_entry
  schema_input :: json_entry

text \<open>The answer a JSON prompt ends with, and the prompt with its repetitions.\<close>

fun entry_value :: "json_entry \<Rightarrow> json" where
  "entry_value TakeDefault = JObj []"
| "entry_value (Typed k v) = v"

fun refused :: "json_entry \<Rightarrow> nat" where
  "refused TakeDefault = 0"
| "refused (Typed k v) = k"

fun ask_again :: "prompt \<Rightarrow> nat \<Rightarrow> (unit, 's) io" where
  "ask_again p 0 = io_return ()"
| "ask_again p (Suc k) = io_bind (emit (Ask p)) (\<lambda>u. ask_again p k)"

definition ask_json :: "prompt \<Rightarrow> json_entry \<Rightarrow> (json, 's) io" where
  "ask_json p e =
     io_bind (emit (Ask p)) (\<lambda>u.
     io_bind (ask_again p (refused e)) (\<lambda>u.
     io_return (entry_value e)))"

definition fallback_url :: string where
  "fallback_url = ''https://api.example.com''"

text \<open>Line 62: \<^verbatim>\<open>env.baseUrl || 'https://api.example.com'\<close>.\<close>

definition url_default :: "json \<Rightarrow> js_error + json" where
  "url_default env =
     (case get_prop (Some env) ''baseUrl'' of
        Inl e \<Rightarrow> Inl e
      | Inr None \<Rightarrow> Inr (JStr fallback_url)
      | Inr (Some b) \<Rightarrow> Inr (if truthy b then b else JStr fallback_url))"

text \<open>The answers object: \<^verbatim>\<open>body\<close> is there only when the body prompt was shown.\<close>

definition answers_json :: "json \<Rightarrow> http_method \<Rightarrow> json \<Rightarrow> json \<Rightarrow> json option \<Rightarrow> json \<Rightarrow> json" where
  "answers_json u m hs q b schema =
     JObj ([(''url'', u), (''method'', JStr (method_name m)), (''headers'', hs), (''query'', q)]
         @ field ''body'' b (\<lambda>x. x)
         @ [(''expectedSchema'', schema)])"

text \<open>Lines 115 to 122.\<close>

definition validate_response ::
  "(json option \<Rightarrow> json \<Rightarrow> js_error + validation) \<Rightarrow> outcome \<Rightarrow> json \<Rightarrow> (unit, 's) io" where
  "validate_response validate res schema =
     io_bind (io_lift (keys_count schema)) (\<lambda>n.
     if n \<noteq> 0 then
       io_bind (emit (Validate (data res) schema)) (\<lambda>u.
       io_bind (io_lift (validate (data res) schema)) (\<lambda>v.
       io_bind (emit (Print SchemaValidationLabel)) (\<lambda>u.
       io_bind (emit (Print (ValidLine (valid v)))) (\<lambda>u.
       if \<not> valid v then emit (Print (ValidationErrors (errors v))) else io_return ()))))
     else io_return ())"

text \<open>Lines 101 to 122, once the answers are collected.\<close>

definition send_and_show ::
  "(request \<Rightarrow> 's \<Rightarrow> axios_result \<times> 's) \<Rightarrow> (json option \<Rightarrow> json \<Rightarrow> js_error + validation) \<Rightarrow>
   json \<Rightarrow> json \<Rightarrow> (unit, 's) io" where
  "send_and_show net validate answers schema =
     io_bind (emit (Print SendingRequest)) (\<lambda>u.
     io_bind (sendRequest net (Some answers)) (\<lambda>res.
     if truthy_str (error res)
     then emit (Print (ErrorLine (case error res of None \<Rightarrow> [] | Some m \<Rightarrow> m)))
     else
       io_bind (emit (Print ResponseLabel)) (\<lambda>u.
       io_bind (emit (Print (StatusLine (status res)))) (\<lambda>u.
       io_bind (emit (Print (HeadersLine (headers res)))) (\<lambda>u.
       io_bind (emit (Print (BodyLine (data res)))) (\<lambda>u.
       io_bind (emit (Print (ResponseTimeLine (responseTime res)))) (\<lambda>u.
       validate_response validate res schema)))))))"

definition interactiveTest ::
  "(request \<Rightarrow> 's \<Rightarrow> axios_result \<times> 's) \<Rightarrow> (json option \<Rightarrow> json \<Rightarrow> js_error + validation) \<Rightarrow>
   session_input \<Rightarrow> (unit, 's) io" where
  "interactiveTest net validate inp =
     io_bind loadEnv (\<lambda>env.
     io_bind (io_lift (url_default env)) (\<lambda>d.
     io_bind (emit (Ask (AskUrl d))) (\<lambda>u.
     io_bind (emit (Ask AskMethod)) (\<lambda>u.
     io_bind (ask_json AskHeaders (headers_input inp)) (\<lambda>hs.
     io_bind (ask_json AskQuery (query_input inp)) (\<lambda>q.
     io_bind (if method_choice inp = POST \<or> method_choice inp = PUT
              then io_bind (ask_json AskBody (body_input inp)) (\<lambda>b. io_return (Some b))
              else io_return None) (\<lambda>b.
     io_bind (ask_json AskSchema (schema_input inp)) (\<lambda>schema.
     send_and_show net validate
       (answers_json (case url_input inp of None \<Rightarrow> d | Some s \<Rightarrow> JStr s)
          (method_choice inp) hs q b schema)
       schema))))))))"

section \<open>The \<^verbatim>\<open>save\<close> command\<close>

record save_input =
  baseUrl_input :: "string option"
  apiKey_input :: "string option"

definition save_command :: "string \<Rightarrow> save_input \<Rightarrow> (unit, 's) io" where
  "save_command nm inp =
     io_bind (emit (Ask AskBaseUrl)) (\<lambda>u.
     io_bind (emit (Ask AskApiKey)) (\<lambda>u.
     saveEnv nm
       \<lparr>baseUrl = (case baseUrl_input inp of None \<Rightarrow> fallback_url | Some s \<Rightarrow> s),
        apiKey = (case apiKey_input inp of None \<Rightarrow> [] | Some s \<Rightarrow> s)\<rparr>))"

section \<open>Report Generator\<close>

text \<open>\<^verbatim>\<open>report.forEach\<close>: only an array has the method.\<close>

fun as_array :: "json \<Rightarrow> js_error + json list" where
  "as_array (JArr xs) = Inr xs"
| "as_array v = Inl TypeError"

text \<open>
  The callback of \<^verbatim>\<open>forEach\<close>, lines 156 to 158; each template literal converts the
  value it shows to a string first.
\<close>

definition print_entry :: "json \<Rightarrow> (unit, 's) io" where
  "print_entry test =
     io_bind (io_lift (get_prop (Some test) ''name'')) (\<lambda>nm.
     io_bind (io_lift (interpolate nm)) (\<lambda>u.
     io_bind (emit (Print (ReportEntry nm (truthy_opt (own test ''passed''))))) (\<lambda>u.
     io_bind (io_lift (get_prop (own test ''result'') ''status'')) (\<lambda>st.
     io_bind (io_lift (interpolate st)) (\<lambda>u.
     io_bind (emit (Print (ReportStatus st))) (\<lambda>u.
     io_bind (io_lift (get_prop (own test ''result'') ''error'')) (\<lambda>e.
     if truthy_opt e
     then io_bind (io_lift (interpolate e)) (\<lambda>u. emit (Print (ReportError e)))
     else io_return ())))))))"

fun print_entries :: "json list \<Rightarrow> (unit, 's) io" where
  "print_entries [] = io_return ()"
| "print_entries (test # tests) = io_bind (print_entry test) (\<lambda>u. print_entries tests)"

definition generateReport :: "(unit, 's) io" where
  "generateReport =
     io_bind (io_catch (readJson REPORT_FILE) (\<lambda>e. io_return (JArr []))) (\<lambda>report.
     io_bind (emit (Print ReportLabel)) (\<lambda>u.
     io_bind (io_lift (as_array report)) (\<lambda>entries.
     io_bind (print_entries entries) (\<lambda>u.
     emit (Print (Summary (length entries)
                    (length (filter (\<lambda>t. truthy_opt (own t ''passed'')) entries))))))))"

section \<open>Observing a run\<close>

text \<open>What a trace holds of each kind of event, in order.\<close>

fun requests_of :: "event list \<Rightarrow> request list" where
  "requests_of [] = []"
| "requests_of (Http r # es) = r # requests_of es"
| "requests_of (e # es) = requests_of es"

fun validations_of :: "event list \<Rightarrow> (json option \<times> json) list" where
  "validations_of [] = []"
| "validations_of (Validate d s # es) = (d, s) # validations_of es"
| "validations_of (e # es) = validations_of es"

fun writes_of :: "event list \<Rightarrow> (path \<times> json) list" where
  "writes_of [] = []"
| "writes_of (Write p v # es) = (p, v) # writes_of es"
| "writes_of (e # es) = writes_of es"

fun prints_of :: "event list \<Rightarrow> line list" where
  "prints_of [] = []"
| "prints_of (Print l # es) = l # prints_of es"
| "prints_of (e # es) = prints_of es"

fun asks_of :: "event list \<Rightarrow> prompt list" where
  "asks_of [] = []"
| "asks_of (Ask p # es) = p # asks_of es"
| "asks_of (e # es) = asks_of es"

text \<open>A computation that, whatever the world it starts in, never calls the validator.\<close>

definition no_validation :: "('a, 's) io \<Rightarrow> bool" where
  "no_validation m = (\<forall>w. validations_of (trace (snd (m w))) = validations_of (trace w))"

text \<open>
  The request a test case sends (none if its \<^verbatim>\<open>request\<close> cannot be destructured), and
  what the case leaves in the trace, given the result recorded for it: the line that
  announces it, its request, the validator call if the checks got that far, the verdict,
  the status line and the error line.
\<close>

definition sent_by :: "json \<Rightarrow> request list" where
  "sent_by test = (case destructure (own test ''request'') of Inl e \<Rightarrow> [] | Inr req \<Rightarrow> [req])"

definition case_events :: "json \<Rightarrow> test_result \<Rightarrow> event list" where
  "case_events test r =
     [Print (RunningTest (own test ''name''))]
     @ map Http (sent_by test)
     @ (if \<not> truthy_str (error (result r))
           \<and> strict_eq (status (result r)) (own test ''expectedStatus'')
           \<and> truthy_opt (own test ''expectedSchema'')
        then (case own test ''expectedSchema'' of
                None \<Rightarrow> []
              | Some schema \<Rightarrow> [Validate (data (result r)) schema])
        else [])
     @ [Print (Verdict (passed r)),
        Print (StatusExpected (status (result r)) (own test ''expectedStatus''))]
     @ (case error (result r) of
          None \<Rightarrow> []
        | Some m \<Rightarrow> if m \<noteq> [] then [Print (ErrorLine m)] else [])"

text \<open>
  A value the runner can run as a test case: an object whose \<^verbatim>\<open>request\<close> is an object
  and whose \<^verbatim>\<open>name\<close> and \<^verbatim>\<open>expectedStatus\<close> convert to strings, as every string and
  every number does. And a computation that returns.
\<close>

fun is_object :: "json option \<Rightarrow> bool" where
  "is_object (Some (JObj kvs)) = True"
| "is_object v = False"

fun returns :: "js_error + 'a \<Rightarrow> bool" where
  "returns (Inr v) = True"
| "returns (Inl e) = False"

definition is_test_case :: "json \<Rightarrow> bool" where
  "is_test_case t =
     (is_object (Some t) \<and> is_object (own t ''request'')
      \<and> returns (interpolate (own t ''name''))
      \<and> returns (interpolate (own t ''expectedStatus'')))"


section \<open>Concrete surroundings, for running the program\<close>

text \<open>
  A network that answers from a script, one entry for each request, and refuses the
  connection once the script is used up.
\<close>

fun scripted :: "request \<Rightarrow> axios_result list \<Rightarrow> axios_result \<times> axios_result list" where
  "scripted req [] = (Rejected ''connect ECONNREFUSED'', [])"
| "scripted req (r # rs) = (r, rs)"

text \<open>
  A small validator: it knows the boolean schemas (\<^verbatim>\<open>true\<close> accepts every value,
  \<^verbatim>\<open>false\<close> none), the keyword \<^verbatim>\<open>type\<close> and nothing else; a schema that is neither
  a plain object nor a boolean makes it throw. It stands in for the library where a concrete
  run needs a validator; the theorems hold for every validator.
\<close>

fun has_type :: "string \<Rightarrow> json option \<Rightarrow> bool" where
  "has_type t None = True"
| "has_type t (Some JNull) = (t = ''null'')"
| "has_type t (Some (JBool b)) = (t = ''boolean'')"
| "has_type t (Some (JNum n)) = (t = ''number'' \<or> t = ''integer'')"
| "has_type t (Some (JStr s)) = (t = ''string'')"
| "has_type t (Some (JArr xs)) = (t = ''array'')"
| "has_type t (Some (JObj kvs)) = (t = ''object'')"

fun mini_validate :: "json option \<Rightarrow> json \<Rightarrow> js_error + validation" where
  "mini_validate d (JBool b) =
     Inr \<lparr>valid = b, errors = (if b then [] else [JStr ''false schema''])\<rparr>"
| "mini_validate d (JObj kvs) =
     (case map_of kvs ''type'' of
        Some (JStr t) \<Rightarrow>
          Inr \<lparr>valid = has_type t d, errors = (if has_type t d then [] else [JStr ''wrong type''])\<rparr>
      | _ \<Rightarrow> Inr \<lparr>valid = True, errors = []\<rparr>)"
| "mini_validate d s = Inl SchemaError"

definition world0 :: "axios_result list \<Rightarrow> axios_result list world" where
  "world0 script = \<lparr>files = Map.empty, server = script, trace = []\<rparr>"

definition with_file :: "path \<Rightarrow> json_text \<Rightarrow> 's world \<Rightarrow> 's world" where
  "with_file p t w = w\<lparr>files := (files w)(p \<mapsto> t)\<rparr>"

text \<open>A suite of two cases and a world whose file \<^verbatim>\<open>suite.json\<close> holds it.\<close>

definition case_t1 :: json where
  "case_t1 =
     JObj [(''name'', JStr ''t1''),
           (''request'', JObj [(''method'', JStr ''GET''), (''url'', JStr ''https://example.com/a'')]),
           (''expectedStatus'', JNum 200),
           (''expectedSchema'', JObj [(''type'', JStr ''string'')])]"

definition case_t2 :: json where
  "case_t2 =
     JObj [(''name'', JStr ''t2''),
           (''request'', JObj [(''method'', JStr ''GET''), (''url'', JStr ''https://example.com/b'')]),
           (''expectedStatus'', JNum 404)]"

definition suite_world :: "axios_result list \<Rightarrow> axios_result list world" where
  "suite_world script = with_file ''suite.json'' (JsonText (JArr [case_t1, case_t2])) (world0 script)"

text \<open>
  Cases whose schema is \<^verbatim>\<open>false\<close>, the schema no value satisfies, whose schema is \<^verbatim>\<open>{}\<close>,
  and whose \<^verbatim>\<open>expectedSchema\<close> is the name of a file where a schema was meant.
\<close>

definition case_schema_name :: json where
  "case_schema_name =
     JObj [(''name'', JStr ''user''),
           (''request'', JObj [(''method'', JStr ''GET''), (''url'', JStr ''https://example.com/a'')]),
           (''expectedStatus'', JNum 200),
           (''expectedSchema'', JStr ''user.schema.json'')]"


definition case_empty_schema :: json where
  "case_empty_schema =
     JObj [(''name'', JStr ''any''),
           (''request'', JObj [(''method'', JStr ''GET''), (''url'', JStr ''https://example.com/a'')]),
           (''expectedStatus'', JNum 200),
           (''expectedSchema'', JObj [])]"

text \<open>
  A session in which the user takes every default but types a schema, and one in which
  every prompt is left empty.
\<close>

definition typed_schema :: session_input where
  "typed_schema =
     \<lparr>url_input = None, method_choice = GET, headers_input = TakeDefault,
      query_input = TakeDefault, body_input = TakeDefault,
      schema_input = Typed 0 (JObj [(''type'', JStr ''object'')])\<rparr>"

definition all_defaults :: session_input where
  "all_defaults =
     \<lparr>url_input = None, method_choice = GET, headers_input = TakeDefault,
      query_input = TakeDefault, body_input = TakeDefault, schema_input = TakeDefault\<rparr>"

section \<open>What the operations compute\<close>

lemmas io_defs = io_return_def io_lift_def io_bind_def io_catch_def emit_def

text \<open>
  Each operation as one expression of the world it starts in; the proofs below use these
  equations and leave the definitions folded.
\<close>

lemma get_prop_Some: "get_prop (Some t) k = (if t = JNull then Inl TypeError else Inr (own t k))"
  by (cases t) simp_all

lemma sendRequest_unfold:
  "sendRequest net arg w =
     (case destructure arg of
        Inl e \<Rightarrow> (Inl e, w)
      | Inr req \<Rightarrow>
          (Inr (outcome_of (fst (net req (server w)))),
           w\<lparr>server := snd (net req (server w)), trace := trace w @ [Http req]\<rparr>))"
  by (simp add: sendRequest_def axios_def io_defs split: sum.splits prod.splits)

lemma check_passed_unfold:
  "check_passed validate t res w =
     (if \<not> truthy_str (error res) \<and> strict_eq (status res) (own t ''expectedStatus'')
          \<and> truthy_opt (own t ''expectedSchema'')
      then (case own t ''expectedSchema'' of
              None \<Rightarrow> (Inr True, w)
            | Some schema \<Rightarrow>
               (case validate (data res) schema of
                  Inl e \<Rightarrow> (Inl e, w\<lparr>trace := trace w @ [Validate (data res) schema]\<rparr>)
                | Inr v \<Rightarrow> (Inr (valid v), w\<lparr>trace := trace w @ [Validate (data res) schema]\<rparr>)))
      else (Inr (\<not> truthy_str (error res) \<and> strict_eq (status res) (own t ''expectedStatus'')), w))"
  by (simp add: check_passed_def io_defs truthy_opt_def split: option.splits sum.splits)

lemma run_case_unfold:
  "run_case net validate t w =
     (if t = JNull then (Inl TypeError, w)
      else if \<not> returns (interpolate (own t ''name'')) then (Inl TypeError, w)
      else case destructure (own t ''request'') of
        Inl e \<Rightarrow> (Inl e, w\<lparr>trace := trace w @ [Print (RunningTest (own t ''name''))]\<rparr>)
      | Inr req \<Rightarrow>
         (case check_passed validate t (outcome_of (fst (net req (server w))))
                 (w\<lparr>server := snd (net req (server w)),
                    trace := trace w @ [Print (RunningTest (own t ''name'')), Http req]\<rparr>) of
            (Inl e, w2) \<Rightarrow> (Inl e, w2)
          | (Inr p, w2) \<Rightarrow>
              if \<not> returns (interpolate (own t ''expectedStatus''))
              then (Inl TypeError, w2\<lparr>trace := trace w2 @ [Print (Verdict p)]\<rparr>)
              else
              (Inr \<lparr>name = own t ''name'', passed = p, result = outcome_of (fst (net req (server w)))\<rparr>,
               w2\<lparr>trace := trace w2 @
                    [Print (Verdict p),
                     Print (StatusExpected (status (outcome_of (fst (net req (server w))))) (own t ''expectedStatus''))]
                    @ (case error (outcome_of (fst (net req (server w)))) of
                         None \<Rightarrow> [] | Some m \<Rightarrow> if m \<noteq> [] then [Print (ErrorLine m)] else [])\<rparr>)))"
  by (simp add: run_case_def get_prop_Some sendRequest_unfold io_defs truthy_str_def interpolate_def
           split: sum.splits prod.splits option.splits)


lemma check_passed_result:
  assumes "check_passed validate t res w = (Inr p, w2)"
  shows "files w2 = files w \<and> server w2 = server w
       \<and> trace w2 = trace w @
            (if \<not> truthy_str (error res) \<and> strict_eq (status res) (own t ''expectedStatus'')
                  \<and> truthy_opt (own t ''expectedSchema'')
             then (case own t ''expectedSchema'' of
                     None \<Rightarrow> [] | Some schema \<Rightarrow> [Validate (data res) schema])
             else [])
       \<and> (p \<longleftrightarrow>
            \<not> truthy_str (error res)
          \<and> strict_eq (status res) (own t ''expectedStatus'')
          \<and> (\<not> truthy_opt (own t ''expectedSchema'')
             \<or> (\<exists>s v. own t ''expectedSchema'' = Some s \<and> validate (data res) s = Inr v \<and> valid v)))"
proof (cases "\<not> truthy_str (error res) \<and> strict_eq (status res) (own t ''expectedStatus'')
          \<and> truthy_opt (own t ''expectedSchema'')")
  case False
  with assms show ?thesis
    by (auto simp: check_passed_unfold)
next
  case True
  then obtain s where s: "own t ''expectedSchema'' = Some s"
    by (cases "own t ''expectedSchema''") (simp_all add: truthy_opt_def)
  from assms True s obtain v where v: "validate (data res) s = Inr v"
    by (cases "validate (data res) s") (simp_all add: check_passed_unfold)
  from assms True s v show ?thesis
    by (auto simp: check_passed_unfold)
qed

lemma run_case_result:
  assumes "run_case net validate t w = (Inr r, w')"
  shows "trace w' = trace w @ case_events t r \<and> files w' = files w \<and> name r = own t ''name''
       \<and> (\<exists>ar. result r = outcome_of ar)
       \<and> (passed r \<longleftrightarrow>
            \<not> truthy_str (error (result r))
          \<and> strict_eq (status (result r)) (own t ''expectedStatus'')
          \<and> (\<not> truthy_opt (own t ''expectedSchema'')
             \<or> (\<exists>s v. own t ''expectedSchema'' = Some s \<and> validate (data (result r)) s = Inr v \<and> valid v)))"
proof -
  from assms have nn: "t \<noteq> JNull"
    by (auto simp: run_case_unfold)
  from assms nn have i1: "returns (interpolate (own t ''name''))"
    by (auto simp: run_case_unfold split: if_splits)
  from assms nn i1 obtain req where req: "destructure (own t ''request'') = Inr req"
    by (cases "destructure (own t ''request'')") (simp_all add: run_case_unfold)
  define res where "res = outcome_of (fst (net req (server w)))"
  define w1 where "w1 = w\<lparr>server := snd (net req (server w)),
                    trace := trace w @ [Print (RunningTest (own t ''name'')), Http req]\<rparr>"
  obtain x w2 where cp: "check_passed validate t res w1 = (x, w2)"
    by (cases "check_passed validate t res w1")
  from assms nn i1 req cp obtain p where p: "x = Inr p"
    by (cases x) (simp_all add: run_case_unfold res_def w1_def)
  from assms nn i1 req cp p have i2: "returns (interpolate (own t ''expectedStatus''))"
    by (auto simp: run_case_unfold res_def w1_def split: if_splits)
  from assms nn i1 i2 req cp p have r: "r = \<lparr>name = own t ''name'', passed = p, result = res\<rparr>"
    and w': "w' = w2\<lparr>trace := trace w2 @
                    [Print (Verdict p), Print (StatusExpected (status res) (own t ''expectedStatus''))]
                    @ (case error res of
                         None \<Rightarrow> [] | Some m \<Rightarrow> if m \<noteq> [] then [Print (ErrorLine m)] else [])\<rparr>"
    by (simp_all add: run_case_unfold res_def w1_def)
  note cpr = check_passed_result [OF cp [unfolded p]]
  have rr: "result r = res" "passed r = p" "name r = own t ''name''"
    by (simp_all add: r)
  from cpr have tr2: "trace w2 = trace w1 @
            (if \<not> truthy_str (error res) \<and> strict_eq (status res) (own t ''expectedStatus'')
                  \<and> truthy_opt (own t ''expectedSchema'')
             then (case own t ''expectedSchema'' of
                     None \<Rightarrow> [] | Some schema \<Rightarrow> [Validate (data res) schema])
             else [])"
    by blast
  have "trace w' = trace w @ case_events t r"
    unfolding case_events_def sent_by_def rr req w' by (simp add: tr2 w1_def truthy_str_def)
  moreover have "files w' = files w"
    using cpr by (simp add: w' w1_def)
  moreover have "name r = own t ''name''"
    by (rule rr)
  moreover have "\<exists>ar. result r = outcome_of ar"
    unfolding rr res_def by blast
  moreover have "passed r \<longleftrightarrow>
            \<not> truthy_str (error (result r))
          \<and> strict_eq (status (result r)) (own t ''expectedStatus'')
          \<and> (\<not> truthy_opt (own t ''expectedSchema'')
             \<or> (\<exists>s v. own t ''expectedSchema'' = Some s \<and> validate (data (result r)) s = Inr v \<and> valid v))"
    unfolding rr using cpr by blast
  ultimately show ?thesis by blast
qed


lemma run_case_returns:
  assumes "is_test_case t"
      and "\<forall>s d. own t ''expectedSchema'' = Some s \<longrightarrow> returns (validate d s)"
  shows "\<exists>r w'. run_case net validate t w = (Inr r, w')"
proof -
  from assms(1) obtain kvs where t: "t = JObj kvs"
    by (cases t) (simp_all add: is_test_case_def)
  from assms(1) obtain req where req: "destructure (own t ''request'') = Inr req"
    by (cases "own t ''request''" rule: is_object.cases) (simp_all add: is_test_case_def)
  from assms(1) have i1: "returns (interpolate (own t ''name''))"
    and i2: "returns (interpolate (own t ''expectedStatus''))"
    by (simp_all add: is_test_case_def)
  define res where "res = outcome_of (fst (net req (server w)))"
  define w1 where "w1 = w\<lparr>server := snd (net req (server w)),
                    trace := trace w @ [Print (RunningTest (own t ''name'')), Http req]\<rparr>"
  have "\<exists>p w2. check_passed validate t res w1 = (Inr p, w2)"
  proof (cases "own t ''expectedSchema''")
    case None
    then show ?thesis by (simp add: check_passed_unfold truthy_opt_def)
  next
    case (Some s)
    with assms(2) have "returns (validate (data res) s)"
      by blast
    then obtain v where "validate (data res) s = Inr v"
      by (cases "validate (data res) s") simp_all
    with Some show ?thesis by (simp add: check_passed_unfold)
  qed
  then obtain p w2 where "check_passed validate t res w1 = (Inr p, w2)"
    by blast
  with t req i1 i2 show ?thesis
    by (simp add: run_case_unfold res_def w1_def)
qed

lemma run_cases_results:
  assumes "run_cases net validate ts acc w = (Inr out, w')"
  shows "\<exists>rs. out = acc @ rs \<and> length rs = length ts \<and> files w' = files w
             \<and> trace w' = trace w @ concat (map2 case_events ts rs)
             \<and> (\<forall>i < length ts. \<exists>w1 w2. run_case net validate (ts ! i) w1 = (Inr (rs ! i), w2))"
  using assms
proof (induction ts arbitrary: acc w)
  case Nil
  then show ?case by (simp add: io_return_def)
next
  case (Cons t ts)
  obtain x w1 where rc: "run_case net validate t w = (x, w1)"
    by (cases "run_case net validate t w")
  with Cons.prems obtain r where x: "x = Inr r"
    by (cases x) (simp_all add: io_bind_def)
  from Cons.prems rc x have "run_cases net validate ts (acc @ [r]) w1 = (Inr out, w')"
    by (simp add: io_bind_def)
  from Cons.IH [OF this] obtain rs where rs: "out = (acc @ [r]) @ rs" "length rs = length ts"
      "files w' = files w1" "trace w' = trace w1 @ concat (map2 case_events ts rs)"
      "\<forall>i < length ts. \<exists>w1 w2. run_case net validate (ts ! i) w1 = (Inr (rs ! i), w2)"
    by blast
  note one = run_case_result [OF rc [unfolded x]]
  have "out = acc @ (r # rs)" using rs(1) by simp
  moreover have "length (r # rs) = length (t # ts)" using rs(2) by simp
  moreover have "files w' = files w" using rs(3) one by simp
  moreover have "trace w' = trace w @ concat (map2 case_events (t # ts) (r # rs))"
    using rs(4) one by simp
  moreover have "\<forall>i < length (t # ts). \<exists>w1 w2. run_case net validate ((t # ts) ! i) w1 = (Inr ((r # rs) ! i), w2)"
  proof (intro allI impI)
    fix i assume "i < length (t # ts)"
    then show "\<exists>w1 w2. run_case net validate ((t # ts) ! i) w1 = (Inr ((r # rs) ! i), w2)"
      using rs(5) rc x by (cases i) auto
  qed
  ultimately show ?case by blast
qed

lemma run_cases_returns:
  assumes "\<forall>t \<in> set ts. is_test_case t"
      and "\<forall>t \<in> set ts. \<forall>s d. own t ''expectedSchema'' = Some s \<longrightarrow> returns (validate d s)"
  shows "\<exists>out w'. run_cases net validate ts acc w = (Inr out, w')"
  using assms
proof (induction ts arbitrary: acc w)
  case Nil
  then show ?case by (simp add: io_return_def)
next
  case (Cons t ts)
  from Cons.prems obtain r w1 where "run_case net validate t w = (Inr r, w1)"
    using run_case_returns [of t validate net w] by auto
  moreover from Cons.prems Cons.IH [of "acc @ [r]" w1]
  obtain out w' where "run_cases net validate ts (acc @ [r]) w1 = (Inr out, w')"
    by auto
  ultimately show ?case by (simp add: io_bind_def)
qed


section \<open>Computations that never call the validator\<close>

text \<open>
  \<open>no_validation\<close> is kept by sequencing, so a computation built from parts that never
  call the validator never calls it.
\<close>

lemma validations_of_append: "validations_of (es @ fs) = validations_of es @ validations_of fs"
  by (induction es rule: validations_of.induct) simp_all

lemma nv_return: "no_validation (io_return a)"
  by (simp add: no_validation_def io_return_def)

lemma nv_lift: "no_validation (io_lift r)"
  by (simp add: no_validation_def io_lift_def)

lemma nv_emit_print: "no_validation (emit (Print l))"
  by (simp add: no_validation_def emit_def validations_of_append)

lemma nv_emit_ask: "no_validation (emit (Ask p))"
  by (simp add: no_validation_def emit_def validations_of_append)

lemma nv_bind:
  assumes "no_validation m" and "\<And>a. no_validation (f a)"
  shows "no_validation (io_bind m f)"
  unfolding no_validation_def
proof
  fix w
  obtain x w1 where m: "m w = (x, w1)" by (cases "m w")
  from assms(1) m have 1: "validations_of (trace w1) = validations_of (trace w)"
    by (auto simp: no_validation_def dest: spec [of _ w])
  show "validations_of (trace (snd (io_bind m f w))) = validations_of (trace w)"
  proof (cases x)
    case (Inl e)
    with m 1 show ?thesis by (simp add: io_bind_def)
  next
    case (Inr a)
    from assms(2) [of a] have "validations_of (trace (snd (f a w1))) = validations_of (trace w1)"
      by (simp add: no_validation_def)
    with Inr m 1 show ?thesis by (simp add: io_bind_def)
  qed
qed

lemma nv_bind_lift:
  assumes "\<And>a. r = Inr a \<Longrightarrow> no_validation (f a)"
  shows "no_validation (io_bind (io_lift r) f)"
proof (cases r)
  case (Inl e)
  then show ?thesis by (simp add: no_validation_def io_bind_def io_lift_def)
next
  case (Inr a)
  with assms [of a] show ?thesis by (simp add: no_validation_def io_bind_def io_lift_def)
qed

lemma nv_loadEnv: "no_validation loadEnv"
  by (simp add: no_validation_def loadEnv_def io_catch_def readJson_def io_return_def
           split: option.splits json_text.splits)

lemma nv_sendRequest: "no_validation (sendRequest net arg)"
  by (simp add: no_validation_def sendRequest_unfold validations_of_append split: sum.splits)

lemma nv_validate_response:
  assumes "keys_count schema = Inr 0"
  shows "no_validation (validate_response validate res schema)"
  using assms by (simp add: validate_response_def no_validation_def io_defs)

lemma nv_send_and_show:
  assumes "keys_count schema = Inr 0"
  shows "no_validation (send_and_show net validate answers schema)"
  unfolding send_and_show_def
  by (intro nv_bind nv_emit_print nv_sendRequest) 
     (auto intro!: nv_bind nv_emit_print nv_validate_response [OF assms])

lemma ask_again_unfold:
  "ask_again p k w = (Inr (), w\<lparr>trace := trace w @ replicate k (Ask p)\<rparr>)"
  by (induction k arbitrary: w) (simp_all add: io_return_def io_bind_def emit_def replicate_app_Cons_same)

lemma ask_json_unfold:
  "ask_json p e w = (Inr (entry_value e), w\<lparr>trace := trace w @ replicate (Suc (refused e)) (Ask p)\<rparr>)"
  by (simp add: ask_json_def io_bind_def emit_def ask_again_unfold io_return_def)

lemma validations_of_asks: "validations_of (replicate k (Ask p)) = []"
  by (induction k) simp_all

lemma nv_bind_ask:
  assumes "no_validation (f (entry_value e))"
  shows "no_validation (io_bind (ask_json p e) f)"
  using assms
  by (simp add: no_validation_def io_bind_def ask_json_unfold validations_of_append
        validations_of_asks del: replicate.simps)

lemma nv_interactiveTest:
  assumes "keys_count (entry_value (schema_input inp)) = Inr 0"
  shows "no_validation (interactiveTest net validate inp)"
  unfolding interactiveTest_def
  by (intro nv_bind nv_bind_lift nv_bind_ask nv_loadEnv nv_emit_ask nv_lift nv_return
        nv_send_and_show assms)
     (auto intro!: nv_bind nv_bind_ask nv_return)

lemma nv_run_case:
  assumes "\<not> truthy_opt (own t ''expectedSchema'')"
  shows "no_validation (run_case net validate t)"
  using assms
  by (simp add: no_validation_def run_case_unfold check_passed_unfold validations_of_append
           split: sum.splits option.splits)


section \<open>The Test Suite Runner\<close>

text \<open>The requests and the writes in the blocks of events that the cases leave.\<close>

lemma requests_of_append: "requests_of (es @ fs) = requests_of es @ requests_of fs"
  by (induction es rule: requests_of.induct) simp_all

lemma writes_of_append: "writes_of (es @ fs) = writes_of es @ writes_of fs"
  by (induction es rule: writes_of.induct) simp_all

lemma requests_of_Http: "requests_of (map Http rs) = rs"
  by (induction rs) simp_all

lemma writes_of_Http: "writes_of (map Http rs) = []"
  by (induction rs) simp_all

lemma requests_of_case_events: "requests_of (case_events t r) = sent_by t"
  by (simp add: case_events_def requests_of_append requests_of_Http split: option.splits)

lemma writes_of_case_events: "writes_of (case_events t r) = []"
  by (simp add: case_events_def writes_of_append writes_of_Http split: option.splits)

lemma requests_of_blocks:
  "length rs = length ts \<Longrightarrow>
     requests_of (concat (map2 case_events ts rs)) = concat (map sent_by ts)"
  by (induction ts rs rule: list_induct2')
     (simp_all add: requests_of_append requests_of_case_events)

lemma writes_of_blocks: "writes_of (concat (map2 case_events ts rs)) = []"
  by (induction ts rs rule: list_induct2')
     (simp_all add: writes_of_append writes_of_case_events)


lemma runTestSuite_unfold:
  assumes "files w file = Some (JsonText (JArr tests))"
  shows "runTestSuite net validate file w =
           (case run_cases net validate tests [] w of
              (Inl e, w1) \<Rightarrow> (Inl e, w1)
            | (Inr rs, w1) \<Rightarrow>
                (Inr (), w1\<lparr>files := (files w1)(REPORT_FILE \<mapsto> JsonText (JArr (map result_json rs))),
                           trace := trace w1 @ [Write REPORT_FILE (JArr (map result_json rs)), Print ReportSaved]\<rparr>))"
  using assms
  by (simp add: runTestSuite_def readJson_def writeJson_def io_defs split: sum.splits prod.splits)


text \<open>
  Claim C3, as amended. For a suite file that holds an array of test cases, each an
  object whose \<^verbatim>\<open>request\<close> is an object and whose \<^verbatim>\<open>name\<close> and \<^verbatim>\<open>expectedStatus\<close>
  convert to strings, and a validator that returns (valid or not) on the schemas of the
  suite, the run completes whatever the network answers, so no transport error, status
  mismatch or invalid response stops it: there is one result for each case, in file
  order; the trace is the
  events of the first case, then those of the second, and so on, each block complete
  (announcement, request, validator call if any, verdict, status line, error line)
  before the next begins; the report is written once, after the last block, and the
  report file then holds exactly the results, whatever it held before. In particular the
  requests sent are the cases' requests, one for each case, in file order, and the run
  adds the one write of the report to the writes.
\<close>

theorem runTestSuite_every_case_in_order:
  assumes "files w file = Some (JsonText (JArr tests))"
      and "\<forall>t \<in> set tests. is_test_case t"
      and "\<forall>t \<in> set tests. \<forall>s d. own t ''expectedSchema'' = Some s \<longrightarrow> returns (validate d s)"
  shows "\<exists>rs. fst (runTestSuite net validate file w) = Inr ()
             \<and> length rs = length tests
             \<and> map name rs = map (\<lambda>t. own t ''name'') tests
             \<and> trace (snd (runTestSuite net validate file w))
                 = trace w @ concat (map2 case_events tests rs)
                     @ [Write REPORT_FILE (JArr (map result_json rs)), Print ReportSaved]
             \<and> files (snd (runTestSuite net validate file w))
                 = (files w)(REPORT_FILE \<mapsto> JsonText (JArr (map result_json rs)))
             \<and> requests_of (trace (snd (runTestSuite net validate file w)))
                 = requests_of (trace w) @ concat (map sent_by tests)
             \<and> writes_of (trace (snd (runTestSuite net validate file w)))
                 = writes_of (trace w) @ [(REPORT_FILE, JArr (map result_json rs))]"
proof -
  from run_cases_returns [OF assms(2,3)]
  obtain rs w1 where rc: "run_cases net validate tests [] w = (Inr rs, w1)"
    by blast
  from run_cases_results [OF rc]
  have len: "length rs = length tests"
    and fs: "files w1 = files w"
    and tr: "trace w1 = trace w @ concat (map2 case_events tests rs)"
    and each: "\<forall>i < length tests. \<exists>w1 w2. run_case net validate (tests ! i) w1 = (Inr (rs ! i), w2)"
    by auto
  have names: "map name rs = map (\<lambda>t. own t ''name'') tests"
  proof (rule nth_equalityI)
    show "length (map name rs) = length (map (\<lambda>t. own t ''name'') tests)"
      using len by simp
  next
    fix i assume "i < length (map name rs)"
    then have i: "i < length tests" using len by simp
    with each obtain wa wb where "run_case net validate (tests ! i) wa = (Inr (rs ! i), wb)"
      by blast
    from run_case_result [OF this] have "name (rs ! i) = own (tests ! i) ''name''"
      by blast
    with i len show "map name rs ! i = map (\<lambda>t. own t ''name'') tests ! i"
      by simp
  qed
  have "fst (runTestSuite net validate file w) = Inr ()"
    using assms(1) rc by (simp add: runTestSuite_unfold)
  moreover have "trace (snd (runTestSuite net validate file w))
                 = trace w @ concat (map2 case_events tests rs)
                     @ [Write REPORT_FILE (JArr (map result_json rs)), Print ReportSaved]"
    using assms(1) rc tr by (simp add: runTestSuite_unfold)
  moreover have "files (snd (runTestSuite net validate file w))
                 = (files w)(REPORT_FILE \<mapsto> JsonText (JArr (map result_json rs)))"
    using assms(1) rc fs by (simp add: runTestSuite_unfold)
  moreover have "requests_of (trace (snd (runTestSuite net validate file w)))
                 = requests_of (trace w) @ concat (map sent_by tests)"
    using assms(1) rc tr len
    by (simp add: runTestSuite_unfold requests_of_append requests_of_blocks)
  moreover have "writes_of (trace (snd (runTestSuite net validate file w)))
                 = writes_of (trace w) @ [(REPORT_FILE, JArr (map result_json rs))]"
    using assms(1) rc tr
    by (simp add: runTestSuite_unfold writes_of_append writes_of_blocks)
  ultimately show ?thesis using len names by blast
qed

text \<open>
  Claim C4. If the suite file is missing or is not JSON, \<^verbatim>\<open>run\<close> fails and leaves the
  world as it was: no request was sent (the trace and the remote side are unchanged), no
  result was recorded and the report file is untouched.
\<close>

theorem runTestSuite_unreadable_file:
  assumes "files w file = None \<or> files w file = Some NotJson"
  shows "runTestSuite net validate file w
           = (Inl (if files w file = None then ENOENT else SyntaxError), w)"
  using assms by (auto simp: runTestSuite_def readJson_def io_bind_def)

lemmas run_defs = runTestSuite_def readJson_def writeJson_def run_case_def sendRequest_def
  interpolate_def
  axios_def check_passed_def truthy_str_def strict_eq_def truthy_opt_def response_time_def
  io_return_def io_lift_def io_bind_def io_catch_def emit_def
  world0_def with_file_def suite_world_def REPORT_FILE_def ENV_FILE_def

subsection \<open>Runs of a suite of two cases\<close>



text \<open>
  A run in which the first request times out: the case fails, the second case runs all
  the same and passes, and both results are written.
\<close>

theorem runTestSuite_every_case_in_order_witness:
  "files (suite_world [Rejected ''connect ETIMEDOUT'', Resolved 404 [] (JStr '''')]) ''suite.json''
     = Some (JsonText (JArr [case_t1, case_t2]))
   \<and> is_test_case case_t1 \<and> is_test_case case_t2
   \<and> returns (mini_validate None (JObj [(''type'', JStr ''string'')]))
   \<and> (\<exists>rs. fst (runTestSuite scripted mini_validate ''suite.json''
                 (suite_world [Rejected ''connect ETIMEDOUT'', Resolved 404 [] (JStr '''')])) = Inr ()
          \<and> length rs = 2
          \<and> map name rs = [Some (JStr ''t1''), Some (JStr ''t2'')]
          \<and> trace (snd (runTestSuite scripted mini_validate ''suite.json''
                 (suite_world [Rejected ''connect ETIMEDOUT'', Resolved 404 [] (JStr '''')])))
              = concat (map2 case_events [case_t1, case_t2] rs)
                  @ [Write REPORT_FILE (JArr (map result_json rs)), Print ReportSaved])
   \<and> requests_of (trace (snd (runTestSuite scripted mini_validate ''suite.json''
                 (suite_world [Rejected ''connect ETIMEDOUT'', Resolved 404 [] (JStr '''')]))))
       = [\<lparr>req_method = Some (JStr ''GET''), url = Some (JStr ''https://example.com/a''),
           req_headers = JObj [], query = JObj [], body = JObj []\<rparr>,
          \<lparr>req_method = Some (JStr ''GET''), url = Some (JStr ''https://example.com/b''),
           req_headers = JObj [], query = JObj [], body = JObj []\<rparr>]
   \<and> files (snd (runTestSuite scripted mini_validate ''suite.json''
                 (suite_world [Rejected ''connect ETIMEDOUT'', Resolved 404 [] (JStr '''')]))) REPORT_FILE
       = Some (JsonText (JArr
           [JObj [(''name'', JStr ''t1''), (''passed'', JBool False),
                  (''result'', JObj [(''error'', JStr ''connect ETIMEDOUT'')])],
            JObj [(''name'', JStr ''t2''), (''passed'', JBool True),
                  (''result'', JObj [(''status'', JNum 404), (''headers'', JObj []),
                                     (''data'', JStr ''''), (''responseTime'', JStr ''N/A'')])]]))"
proof -
  let ?w = "suite_world [Rejected ''connect ETIMEDOUT'', Resolved 404 [] (JStr '''')]"
  let ?run = "runTestSuite scripted mini_validate ''suite.json'' ?w"
  have h1: "files ?w ''suite.json'' = Some (JsonText (JArr [case_t1, case_t2]))"
    by (simp add: suite_world_def with_file_def world0_def)
  have t1: "is_test_case case_t1" and t2: "is_test_case case_t2"
    by (simp_all add: is_test_case_def interpolate_def case_t1_def case_t2_def)
  then have h2: "\<forall>t \<in> set [case_t1, case_t2]. is_test_case t"
    by simp
  have h3: "\<forall>t \<in> set [case_t1, case_t2]. \<forall>s d. own t ''expectedSchema'' = Some s \<longrightarrow> returns (mini_validate d s)"
    by (auto simp: case_t1_def case_t2_def)
  have r: "returns (mini_validate None (JObj [(''type'', JStr ''string'')]))"
    by simp
  have tr0: "trace ?w = []"
    by (simp add: suite_world_def with_file_def world0_def)
  have nm: "map (\<lambda>t. own t ''name'') [case_t1, case_t2] = [Some (JStr ''t1''), Some (JStr ''t2'')]"
    by (simp add: case_t1_def case_t2_def)
  from runTestSuite_every_case_in_order [OF h1 h2 h3, of scripted]
  obtain rs where rs: "fst ?run = Inr ()
             \<and> length rs = length [case_t1, case_t2]
             \<and> map name rs = map (\<lambda>t. own t ''name'') [case_t1, case_t2]
             \<and> trace (snd ?run)
                 = trace ?w @ concat (map2 case_events [case_t1, case_t2] rs)
                     @ [Write REPORT_FILE (JArr (map result_json rs)), Print ReportSaved]
             \<and> files (snd ?run)
                 = (files ?w)(REPORT_FILE \<mapsto> JsonText (JArr (map result_json rs)))
             \<and> requests_of (trace (snd ?run))
                 = requests_of (trace ?w) @ concat (map sent_by [case_t1, case_t2])
             \<and> writes_of (trace (snd ?run))
                 = writes_of (trace ?w) @ [(REPORT_FILE, JArr (map result_json rs))]" ..
  have "fst ?run = Inr ()
          \<and> length rs = 2
          \<and> map name rs = [Some (JStr ''t1''), Some (JStr ''t2'')]
          \<and> trace (snd ?run)
              = concat (map2 case_events [case_t1, case_t2] rs)
                  @ [Write REPORT_FILE (JArr (map result_json rs)), Print ReportSaved]"
    using rs unfolding tr0 nm by simp
  then have ex: "\<exists>rs. fst ?run = Inr ()
          \<and> length rs = 2
          \<and> map name rs = [Some (JStr ''t1''), Some (JStr ''t2'')]
          \<and> trace (snd ?run)
              = concat (map2 case_events [case_t1, case_t2] rs)
                  @ [Write REPORT_FILE (JArr (map result_json rs)), Print ReportSaved]"
    by (rule exI)
  from rs [THEN conjunct2, THEN conjunct2, THEN conjunct2, THEN conjunct2, THEN conjunct2,
            THEN conjunct1]
  have rq: "requests_of (trace (snd ?run))
       = [\<lparr>req_method = Some (JStr ''GET''), url = Some (JStr ''https://example.com/a''),
           req_headers = JObj [], query = JObj [], body = JObj []\<rparr>,
          \<lparr>req_method = Some (JStr ''GET''), url = Some (JStr ''https://example.com/b''),
           req_headers = JObj [], query = JObj [], body = JObj []\<rparr>]"
    by (simp add: tr0 sent_by_def case_t1_def case_t2_def or_empty_def)
  have report: "files (snd ?run) REPORT_FILE
       = Some (JsonText (JArr
           [JObj [(''name'', JStr ''t1''), (''passed'', JBool False),
                  (''result'', JObj [(''error'', JStr ''connect ETIMEDOUT'')])],
            JObj [(''name'', JStr ''t2''), (''passed'', JBool True),
                  (''result'', JObj [(''status'', JNum 404), (''headers'', JObj []),
                                     (''data'', JStr ''''), (''responseTime'', JStr ''N/A'')])]]))"
    by (simp add: run_defs case_t1_def case_t2_def result_json_def outcome_json_def field_def)
  show ?thesis by (intro conjI h1 t1 t2 r ex rq report)
qed

text \<open>
  Claim C3 as stated fails when the validator throws: the loop of lines 130 to 145 has no
  \<^verbatim>\<open>try\<close>. In a suite of two test cases whose first has a string where a schema was
  meant, the first response has the expected status, the validator is called and
  refuses the schema with an exception, and the run ends there: the second case's
  request is never sent, nothing is written and there is no report file.
\<close>

theorem validator_exception_stops_suite:
  "is_test_case case_schema_name \<and> is_test_case case_t2
   \<and> mini_validate (Some (JStr ''ok'')) (JStr ''user.schema.json'') = Inl SchemaError
   \<and> fst (runTestSuite scripted mini_validate ''suite.json''
            (with_file ''suite.json'' (JsonText (JArr [case_schema_name, case_t2]))
               (world0 [Resolved 200 [] (JStr ''ok''), Resolved 404 [] (JStr '''')])))
       = Inl SchemaError
   \<and> trace (snd (runTestSuite scripted mini_validate ''suite.json''
            (with_file ''suite.json'' (JsonText (JArr [case_schema_name, case_t2]))
               (world0 [Resolved 200 [] (JStr ''ok''), Resolved 404 [] (JStr '''')]))))
       = [Print (RunningTest (Some (JStr ''user''))),
          Http \<lparr>req_method = Some (JStr ''GET''), url = Some (JStr ''https://example.com/a''),
                req_headers = JObj [], query = JObj [], body = JObj []\<rparr>,
          Validate (Some (JStr ''ok'')) (JStr ''user.schema.json'')]
   \<and> files (snd (runTestSuite scripted mini_validate ''suite.json''
            (with_file ''suite.json'' (JsonText (JArr [case_schema_name, case_t2]))
               (world0 [Resolved 200 [] (JStr ''ok''), Resolved 404 [] (JStr '''')])))) REPORT_FILE
       = None"
  by (simp add: run_defs is_test_case_def or_empty_def case_schema_name_def case_t2_def)

text \<open>A suite file that is missing, and one that is not JSON.\<close>

theorem runTestSuite_unreadable_file_witness:
  "files (world0 []) ''suite.json'' = None
   \<and> runTestSuite scripted mini_validate ''suite.json'' (world0 []) = (Inl ENOENT, world0 [])
   \<and> files (with_file ''suite.json'' NotJson (world0 [])) ''suite.json'' = Some NotJson
   \<and> runTestSuite scripted mini_validate ''suite.json'' (with_file ''suite.json'' NotJson (world0 []))
       = (Inl SyntaxError, with_file ''suite.json'' NotJson (world0 []))"
proof -
  have a: "files (world0 []) ''suite.json'' = None"
    by (simp add: world0_def)
  have b: "files (with_file ''suite.json'' NotJson (world0 [])) ''suite.json'' = Some NotJson"
    by (simp add: world0_def with_file_def)
  from a have "files (world0 []) ''suite.json'' = None \<or> files (world0 []) ''suite.json'' = Some NotJson"
    by (rule disjI1)
  from runTestSuite_unreadable_file [OF this, of scripted mini_validate] a
  have 1: "runTestSuite scripted mini_validate ''suite.json'' (world0 []) = (Inl ENOENT, world0 [])"
    by simp
  from b have "files (with_file ''suite.json'' NotJson (world0 [])) ''suite.json'' = None
             \<or> files (with_file ''suite.json'' NotJson (world0 [])) ''suite.json'' = Some NotJson"
    by (rule disjI2)
  from runTestSuite_unreadable_file [OF this, of scripted mini_validate] b
  have 2: "runTestSuite scripted mini_validate ''suite.json'' (with_file ''suite.json'' NotJson (world0 []))
       = (Inl SyntaxError, with_file ''suite.json'' NotJson (world0 []))"
    by simp
  from a b 1 2 show ?thesis by blast
qed

section \<open>The Request Executor\<close>

lemma is_object_destructure: "is_object arg \<Longrightarrow> \<exists>req. destructure arg = Inr req"
  by (cases arg rule: is_object.cases) simp_all

text \<open>
  Claim C2. For every request specification (an object), \<^verbatim>\<open>sendRequest\<close> returns and
  does not throw. If a response was received, whatever its status, the outcome has
  \<^verbatim>\<open>status\<close>, \<^verbatim>\<open>headers\<close> and \<^verbatim>\<open>data\<close> (and \<^verbatim>\<open>responseTime\<close>) and no \<^verbatim>\<open>error\<close>; if the
  transport failed, the outcome has the failure's message as \<^verbatim>\<open>error\<close> and nothing else.
\<close>

theorem sendRequest_two_shapes:
  assumes "is_object arg"
  shows "\<exists>req out w'.
           destructure arg = Inr req \<and> sendRequest net arg w = (Inr out, w') \<and>
           (\<forall>st hs d. fst (net req (server w)) = Resolved st hs d \<longrightarrow>
              status out = Some st \<and> headers out = Some hs \<and> data out = Some d \<and>
              responseTime out \<noteq> None \<and> error out = None) \<and>
           (\<forall>msg. fst (net req (server w)) = Rejected msg \<longrightarrow>
              error out = Some msg \<and> status out = None \<and> headers out = None \<and>
              data out = None \<and> responseTime out = None)"
proof -
  from assms obtain req where req: "destructure arg = Inr req"
    using is_object_destructure by blast
  show ?thesis
  proof (cases "fst (net req (server w))")
    case (Resolved st hs d)
    with req show ?thesis
      by (simp add: sendRequest_unfold)
  next
    case (Rejected msg)
    with req show ?thesis
      by (simp add: sendRequest_unfold)
  qed
qed

text \<open>A response with status 500, and a name that does not resolve.\<close>

theorem sendRequest_two_shapes_witness:
  "is_object (Some (JObj [(''method'', JStr ''GET''), (''url'', JStr ''https://example.com/a'')]))
   \<and> fst (sendRequest scripted
            (Some (JObj [(''method'', JStr ''GET''), (''url'', JStr ''https://example.com/a'')]))
            (world0 [Resolved 500 [] (JStr ''oops'')]))
       = Inr \<lparr>status = Some 500, headers = Some [], data = Some (JStr ''oops''),
              responseTime = Some ''N/A'', error = None\<rparr>
   \<and> fst (sendRequest scripted
            (Some (JObj [(''method'', JStr ''GET''), (''url'', JStr ''https://example.com/a'')]))
            (world0 [Rejected ''getaddrinfo ENOTFOUND'']))
       = Inr \<lparr>status = None, headers = None, data = None,
              responseTime = None, error = Some ''getaddrinfo ENOTFOUND''\<rparr>"
proof -
  let ?arg = "Some (JObj [(''method'', JStr ''GET''), (''url'', JStr ''https://example.com/a'')])"
  have obj: "is_object ?arg"
    by simp
  from sendRequest_two_shapes [OF obj, of scripted "world0 [Resolved 500 [] (JStr ''oops'')]"]
  have a: "fst (sendRequest scripted ?arg (world0 [Resolved 500 [] (JStr ''oops'')]))
       = Inr \<lparr>status = Some 500, headers = Some [], data = Some (JStr ''oops''),
              responseTime = Some ''N/A'', error = None\<rparr>"
    by (simp add: sendRequest_unfold world0_def response_time_def)
  from sendRequest_two_shapes [OF obj, of scripted "world0 [Rejected ''getaddrinfo ENOTFOUND'']"]
  have b: "fst (sendRequest scripted ?arg (world0 [Rejected ''getaddrinfo ENOTFOUND'']))
       = Inr \<lparr>status = None, headers = None, data = None,
              responseTime = None, error = Some ''getaddrinfo ENOTFOUND''\<rparr>"
    by (simp add: sendRequest_unfold world0_def)
  show ?thesis by (intro conjI obj a b)
qed

text \<open>
  Claim C8, as amended. For every received response, \<^verbatim>\<open>responseTime\<close> is the value of
  the header \<^verbatim>\<open>x-response-time\<close> when the server supplies a non-empty one, and the
  string \<^verbatim>\<open>N/A\<close> otherwise; it depends on the response headers alone, no time is
  measured.
\<close>

theorem responseTime_header_or_NA:
  assumes "destructure arg = Inr req"
      and "fst (net req (server w)) = Resolved st hs d"
  shows "\<exists>out. fst (sendRequest net arg w) = Inr out \<and>
           responseTime out =
             Some (case map_of hs ''x-response-time'' of
                     None \<Rightarrow> ''N/A''
                   | Some t \<Rightarrow> if t \<noteq> [] then t else ''N/A'')"
  using assms by (simp add: sendRequest_unfold response_time_def)

text \<open>A server that supplies the header.\<close>

theorem responseTime_header_or_NA_witness:
  "destructure (Some (JObj [(''url'', JStr ''https://example.com/a'')]))
     = Inr \<lparr>req_method = None, url = Some (JStr ''https://example.com/a''),
            req_headers = JObj [], query = JObj [], body = JObj []\<rparr>
   \<and> fst (scripted \<lparr>req_method = None, url = Some (JStr ''https://example.com/a''),
                     req_headers = JObj [], query = JObj [], body = JObj []\<rparr>
             (server (world0 [Resolved 200 [(''x-response-time'', ''12ms'')] JNull])))
       = Resolved 200 [(''x-response-time'', ''12ms'')] JNull
   \<and> (\<exists>out. fst (sendRequest scripted (Some (JObj [(''url'', JStr ''https://example.com/a'')]))
                    (world0 [Resolved 200 [(''x-response-time'', ''12ms'')] JNull])) = Inr out
            \<and> responseTime out = Some ''12ms'')"
proof -
  let ?req = "\<lparr>req_method = None, url = Some (JStr ''https://example.com/a''),
            req_headers = JObj [], query = JObj [], body = JObj []\<rparr>"
  let ?w = "world0 [Resolved 200 [(''x-response-time'', ''12ms'')] JNull]"
  have h1: "destructure (Some (JObj [(''url'', JStr ''https://example.com/a'')])) = Inr ?req"
    by (simp add: or_empty_def)
  have h2: "fst (scripted ?req (server ?w)) = Resolved 200 [(''x-response-time'', ''12ms'')] JNull"
    by (simp add: world0_def)
  from responseTime_header_or_NA [where net = scripted and w = ?w, OF h1 h2]
  have c: "\<exists>out. fst (sendRequest scripted (Some (JObj [(''url'', JStr ''https://example.com/a'')])) ?w) = Inr out
            \<and> responseTime out = Some ''12ms''"
    by simp
  show ?thesis by (intro conjI h1 h2 c)
qed

text \<open>
  Claim C8 as stated fails when the server supplies the header with an empty value: the
  header's value is the empty string, \<^verbatim>\<open>responseTime\<close> is \<^verbatim>\<open>N/A\<close> (line 47 takes the
  default for every falsy value).
\<close>

theorem empty_timing_header_counterexample:
  "map_of [(''x-response-time'', '''')] ''x-response-time'' = Some ''''
   \<and> fst (sendRequest scripted (Some (JObj [(''url'', JStr ''https://example.com/a'')]))
            (world0 [Resolved 200 [(''x-response-time'', '''')] JNull]))
       = Inr \<lparr>status = Some 200, headers = Some [(''x-response-time'', '''')], data = Some JNull,
              responseTime = Some ''N/A'', error = None\<rparr>"
  by (simp add: sendRequest_unfold world0_def response_time_def or_empty_def)

section \<open>The Environment Store and the Report Generator\<close>

lemma map_of_upd: "map_of (upd kvs k v) = (map_of kvs)(k \<mapsto> v)"
  by (induction kvs k v rule: upd.induct) auto

lemma loadEnv_unfold:
  "loadEnv w =
     (case files w ENV_FILE of
        Some (JsonText v) \<Rightarrow> (Inr v, w)
      | _ \<Rightarrow> (Inr (JObj []), w))"
  by (simp add: loadEnv_def io_catch_def readJson_def io_return_def
           split: option.splits json_text.splits)

text \<open>
  The round trip of the Environment Store: after \<open>saveEnv nm env\<close> the mapping read
  back maps \<open>nm\<close> to \<open>env\<close>, whole, and every other name to what it mapped to before,
  for every name but a \<^verbatim>\<open>__proto__\<close> the mapping does not hold yet.
\<close>

lemma saveEnv_then_loadEnv:
  assumes "fst (loadEnv w) = Inr (JObj kvs)"
      and "nm \<noteq> ''__proto__'' \<or> map_of kvs nm \<noteq> None"
  shows "\<exists>kvs'. fst (saveEnv nm env w) = Inr ()
             \<and> fst (loadEnv (snd (saveEnv nm env w))) = Inr (JObj kvs')
             \<and> map_of kvs' = (map_of kvs)(nm \<mapsto> environment_json env)"
proof -
  from assms(1) have l: "loadEnv w = (Inr (JObj kvs), w)"
    by (simp add: loadEnv_unfold split: option.splits json_text.splits)
  from assms(2) have a: "assign (JObj kvs) nm (environment_json env) = Inr (JObj (upd kvs nm (environment_json env)))"
    by auto
  have s: "saveEnv nm env w =
          (Inr (), w\<lparr>files := (files w)(ENV_FILE \<mapsto> JsonText (JObj (upd kvs nm (environment_json env)))),
                     trace := trace w @ [Write ENV_FILE (JObj (upd kvs nm (environment_json env))),
                                         Print (EnvSaved nm)]\<rparr>)"
    unfolding saveEnv_def by (simp add: io_bind_def l a io_lift_def writeJson_def emit_def del: assign.simps)
  have "fst (saveEnv nm env w) = Inr ()
      \<and> fst (loadEnv (snd (saveEnv nm env w))) = Inr (JObj (upd kvs nm (environment_json env)))
      \<and> map_of (upd kvs nm (environment_json env)) = (map_of kvs)(nm \<mapsto> environment_json env)"
    by (simp add: s loadEnv_unfold map_of_upd)
  then show ?thesis by (rule exI)
qed

text \<open>
  Claim C5 fails on the code for the name \<^verbatim>\<open>__proto__\<close>: \<^verbatim>\<open>save __proto__\<close> reports
  success, yet the environment is not stored, and a later \<^verbatim>\<open>load()\<close> has no such key.
  For every other name, and for \<^verbatim>\<open>__proto__\<close> when the file already holds it as a key,
  the round trip holds (\<open>saveEnv_then_loadEnv\<close>).
\<close>

theorem proto_environment_not_saved:
  "fst (saveEnv ''__proto__'' \<lparr>baseUrl = ''http://localhost:3000'', apiKey = ''k''\<rparr> (world0 [])) = Inr ()
   \<and> trace (snd (saveEnv ''__proto__'' \<lparr>baseUrl = ''http://localhost:3000'', apiKey = ''k''\<rparr> (world0 [])))
       = [Write ENV_FILE (JObj []), Print (EnvSaved ''__proto__'')]
   \<and> fst (loadEnv (snd (saveEnv ''__proto__'' \<lparr>baseUrl = ''http://localhost:3000'', apiKey = ''k''\<rparr>
                          (world0 [])))) = Inr (JObj [])
   \<and> own (JObj []) ''__proto__'' = None"
  by (simp add: saveEnv_def loadEnv_unfold io_bind_def io_lift_def writeJson_def emit_def world0_def)

text \<open>
  Claim C6. A missing or unparsable environment file makes \<^verbatim>\<open>loadEnv\<close> return the empty
  mapping, and a missing or unparsable report file makes \<^verbatim>\<open>generateReport\<close> print the
  heading and the summary of no results, exactly as it does for a report file that holds
  the empty array; neither throws.
\<close>

theorem missing_or_unparsable_is_empty:
  "(files w ENV_FILE = None \<or> files w ENV_FILE = Some NotJson \<longrightarrow>
      loadEnv w = (Inr (JObj []), w))
   \<and> (files w REPORT_FILE = None \<or> files w REPORT_FILE = Some NotJson \<longrightarrow>
        generateReport w = (Inr (), w\<lparr>trace := trace w @ [Print ReportLabel, Print (Summary 0 0)]\<rparr>)
      \<and> fst (generateReport w) = fst (generateReport (with_file REPORT_FILE (JsonText (JArr [])) w))
      \<and> trace (snd (generateReport w))
          = trace (snd (generateReport (with_file REPORT_FILE (JsonText (JArr [])) w))))"
proof (intro conjI impI)
  assume "files w ENV_FILE = None \<or> files w ENV_FILE = Some NotJson"
  then show "loadEnv w = (Inr (JObj []), w)"
    by (auto simp: loadEnv_unfold)
next
  assume a: "files w REPORT_FILE = None \<or> files w REPORT_FILE = Some NotJson"
  then have r: "io_catch (readJson REPORT_FILE) (\<lambda>e. io_return (JArr [])) w = (Inr (JArr []), w)"
    by (auto simp: io_catch_def readJson_def io_return_def)
  have r': "io_catch (readJson REPORT_FILE) (\<lambda>e. io_return (JArr []))
              (with_file REPORT_FILE (JsonText (JArr [])) w)
            = (Inr (JArr []), with_file REPORT_FILE (JsonText (JArr [])) w)"
    by (simp add: io_catch_def readJson_def with_file_def)
  show g: "generateReport w = (Inr (), w\<lparr>trace := trace w @ [Print ReportLabel, Print (Summary 0 0)]\<rparr>)"
    unfolding generateReport_def by (simp add: io_bind_def r emit_def io_lift_def io_return_def)
  have g': "generateReport (with_file REPORT_FILE (JsonText (JArr [])) w)
          = (Inr (), (with_file REPORT_FILE (JsonText (JArr [])) w)
                \<lparr>trace := trace (with_file REPORT_FILE (JsonText (JArr [])) w)
                            @ [Print ReportLabel, Print (Summary 0 0)]\<rparr>)"
    unfolding generateReport_def by (simp add: io_bind_def r' emit_def io_lift_def io_return_def)
  show "fst (generateReport w) = fst (generateReport (with_file REPORT_FILE (JsonText (JArr [])) w))"
    by (simp add: g g')
  show "trace (snd (generateReport w))
          = trace (snd (generateReport (with_file REPORT_FILE (JsonText (JArr [])) w)))"
    unfolding g g' by (simp add: with_file_def)
qed

text \<open>No environment file, and a report file that is not JSON.\<close>

theorem missing_or_unparsable_is_empty_witness:
  "files (world0 []) ENV_FILE = None
   \<and> loadEnv (world0 []) = (Inr (JObj []), world0 [])
   \<and> files (with_file REPORT_FILE NotJson (world0 [])) REPORT_FILE = Some NotJson
   \<and> fst (generateReport (with_file REPORT_FILE NotJson (world0 []))) = Inr ()
   \<and> trace (snd (generateReport (with_file REPORT_FILE NotJson (world0 []))))
       = [Print ReportLabel, Print (Summary 0 0)]"
proof -
  have a: "files (world0 []) ENV_FILE = None"
    by (simp add: world0_def)
  have b: "files (with_file REPORT_FILE NotJson (world0 [])) REPORT_FILE = Some NotJson"
    by (simp add: with_file_def)
  from missing_or_unparsable_is_empty [of "world0 []"] a
  have 1: "loadEnv (world0 []) = (Inr (JObj []), world0 [])"
    by simp
  from missing_or_unparsable_is_empty [of "with_file REPORT_FILE NotJson (world0 [])"] b
  have g: "generateReport (with_file REPORT_FILE NotJson (world0 []))
         = (Inr (), (with_file REPORT_FILE NotJson (world0 []))
               \<lparr>trace := trace (with_file REPORT_FILE NotJson (world0 []))
                           @ [Print ReportLabel, Print (Summary 0 0)]\<rparr>)"
    by simp
  have 2: "fst (generateReport (with_file REPORT_FILE NotJson (world0 []))) = Inr ()"
    by (simp add: g)
  have 3: "trace (snd (generateReport (with_file REPORT_FILE NotJson (world0 []))))
       = [Print ReportLabel, Print (Summary 0 0)]"
    unfolding g by (simp add: with_file_def world0_def)
  show ?thesis by (intro conjI a 1 b 2 3)
qed

section \<open>The callers of the Schema Validator\<close>

lemma validations_of_case_events:
  "validations_of (case_events t r) =
     (if \<not> truthy_str (error (result r))
           \<and> strict_eq (status (result r)) (own t ''expectedStatus'')
           \<and> truthy_opt (own t ''expectedSchema'')
      then (case own t ''expectedSchema'' of
              None \<Rightarrow> []
            | Some schema \<Rightarrow> [(data (result r), schema)])
      else [])"
proof -
  have "validations_of (map Http rs) = []" for rs
    by (induction rs) simp_all
  then show ?thesis
    by (simp add: case_events_def validations_of_append split: option.splits)
qed

lemma run_case_validations:
  assumes "run_case net validate t w = (Inr r, w')"
      and "own t ''expectedStatus'' = Some (JNum n)"
      and "own t ''expectedSchema'' = Some schema"
      and "truthy schema"
  shows "validations_of (trace w') = validations_of (trace w) @
           (if error (result r) = None \<and> status (result r) = Some n
            then [(data (result r), schema)] else [])"
proof -
  note rc = run_case_result [OF assms(1)]
  from rc obtain ar where ar: "result r = outcome_of ar" by blast
  have c: "\<not> truthy_str (error (result r)) \<and> strict_eq (status (result r)) (Some (JNum n))
        \<longleftrightarrow> error (result r) = None \<and> status (result r) = Some n"
    unfolding ar by (cases ar) (auto simp: truthy_str_def strict_eq_def)
  from rc have "trace w' = trace w @ case_events t r"
    by blast
  then have "validations_of (trace w') = validations_of (trace w) @ validations_of (case_events t r)"
    by (simp add: validations_of_append)
  also have "validations_of (case_events t r) =
           (if error (result r) = None \<and> status (result r) = Some n
            then [(data (result r), schema)] else [])"
    using c assms(2-4) by (simp add: validations_of_case_events truthy_opt_def)
  finally show ?thesis .
qed

text \<open>
  Claim C7, as amended. The Interactive Session performs no validation when the
  expected schema is omitted (the default \<^verbatim>\<open>{}\<close>) or has no keys. The Test Suite Runner
  performs no validation for a case whose \<^verbatim>\<open>expectedSchema\<close> is omitted or falsy. For a
  case with a truthy \<^verbatim>\<open>expectedSchema\<close>, and the empty schema \<^verbatim>\<open>{}\<close> is truthy, and a
  numeric \<^verbatim>\<open>expectedStatus\<close>, a run of the case that completes calls the validator once,
  on the response data and that schema, when the outcome has no error and its status
  equals the expected status, and does not call it otherwise.
\<close>

theorem schema_checks_before_validation:
  "(keys_count (entry_value (schema_input inp)) = Inr 0 \<longrightarrow>
      validations_of (trace (snd (interactiveTest net validate inp w))) = validations_of (trace w))
   \<and> (\<not> truthy_opt (own t ''expectedSchema'') \<longrightarrow>
      validations_of (trace (snd (run_case net validate t w))) = validations_of (trace w))
   \<and> (fst (run_case net validate t w) = Inr r
        \<and> own t ''expectedStatus'' = Some (JNum n)
        \<and> own t ''expectedSchema'' = Some schema \<and> truthy schema \<longrightarrow>
      validations_of (trace (snd (run_case net validate t w)))
        = validations_of (trace w) @
            (if error (result r) = None \<and> status (result r) = Some n
             then [(data (result r), schema)] else []))"
proof (intro conjI impI)
  assume "keys_count (entry_value (schema_input inp)) = Inr 0"
  then have "no_validation (interactiveTest net validate inp)"
    by (rule nv_interactiveTest)
  then show "validations_of (trace (snd (interactiveTest net validate inp w))) = validations_of (trace w)"
    by (simp add: no_validation_def)
next
  assume "\<not> truthy_opt (own t ''expectedSchema'')"
  then have "no_validation (run_case net validate t)"
    by (rule nv_run_case)
  then show "validations_of (trace (snd (run_case net validate t w))) = validations_of (trace w)"
    by (simp add: no_validation_def)
next
  assume a: "fst (run_case net validate t w) = Inr r
        \<and> own t ''expectedStatus'' = Some (JNum n)
        \<and> own t ''expectedSchema'' = Some schema \<and> truthy schema"
  then have "run_case net validate t w = (Inr r, snd (run_case net validate t w))"
    by (metis prod.collapse)
  from run_case_validations [OF this] a
  show "validations_of (trace (snd (run_case net validate t w)))
        = validations_of (trace w) @
            (if error (result r) = None \<and> status (result r) = Some n
             then [(data (result r), schema)] else [])"
    by blast
qed

lemmas session_defs = interactiveTest_def send_and_show_def validate_response_def
  ask_json_unfold loadEnv_unfold url_default_def answers_json_def field_def fallback_url_def
  sendRequest_unfold or_empty_def response_time_def truthy_str_def
  io_return_def io_lift_def io_bind_def emit_def world0_def ENV_FILE_def

text \<open>
  A session in which the schema prompt is left empty; a case without
  \<^verbatim>\<open>expectedSchema\<close>; and the case with the empty schema, run once against a response
  with the expected status and once against a server error.
\<close>

theorem schema_checks_before_validation_witness:
  "keys_count (entry_value (schema_input all_defaults)) = Inr 0
   \<and> validations_of (trace (snd (interactiveTest scripted mini_validate all_defaults
                                    (world0 [Resolved 200 [] (JStr ''ok'')])))) = []
   \<and> requests_of (trace (snd (interactiveTest scripted mini_validate all_defaults
                                    (world0 [Resolved 200 [] (JStr ''ok'')]))))
       = [\<lparr>req_method = Some (JStr ''GET''), url = Some (JStr ''https://api.example.com''),
           req_headers = JObj [], query = JObj [], body = JObj []\<rparr>]
   \<and> \<not> truthy_opt (own case_t2 ''expectedSchema'')
   \<and> validations_of (trace (snd (run_case scripted mini_validate case_t2
                                    (world0 [Resolved 404 [] (JStr '''')])))) = []
   \<and> own case_empty_schema ''expectedStatus'' = Some (JNum 200)
   \<and> own case_empty_schema ''expectedSchema'' = Some (JObj [])
   \<and> truthy (JObj [])
   \<and> fst (run_case scripted mini_validate case_empty_schema (world0 [Resolved 200 [] (JStr ''ok'')]))
       = Inr \<lparr>name = Some (JStr ''any''), passed = True,
              result = \<lparr>status = Some 200, headers = Some [], data = Some (JStr ''ok''),
                        responseTime = Some ''N/A'', error = None\<rparr>\<rparr>
   \<and> validations_of (trace (snd (run_case scripted mini_validate case_empty_schema
                                    (world0 [Resolved 200 [] (JStr ''ok'')]))))
       = [(Some (JStr ''ok''), JObj [])]
   \<and> fst (run_case scripted mini_validate case_empty_schema (world0 [Resolved 500 [] (JStr ''no'')]))
       = Inr \<lparr>name = Some (JStr ''any''), passed = False,
              result = \<lparr>status = Some 500, headers = Some [], data = Some (JStr ''no''),
                        responseTime = Some ''N/A'', error = None\<rparr>\<rparr>
   \<and> validations_of (trace (snd (run_case scripted mini_validate case_empty_schema
                                    (world0 [Resolved 500 [] (JStr ''no'')])))) = []"
proof -
  let ?w = "world0 [Resolved 200 [] (JStr ''ok'')]"
  let ?v = "world0 [Resolved 404 [] (JStr '''')]"
  let ?u = "world0 [Resolved 500 [] (JStr ''no'')]"
  let ?r200 = "\<lparr>name = Some (JStr ''any''), passed = True,
              result = \<lparr>status = Some 200, headers = Some [], data = Some (JStr ''ok''),
                        responseTime = Some ''N/A'', error = None\<rparr>\<rparr>"
  let ?r500 = "\<lparr>name = Some (JStr ''any''), passed = False,
              result = \<lparr>status = Some 500, headers = Some [], data = Some (JStr ''no''),
                        responseTime = Some ''N/A'', error = None\<rparr>\<rparr>"
  have a: "keys_count (entry_value (schema_input all_defaults)) = Inr 0"
    by (simp add: all_defaults_def)
  have c: "\<not> truthy_opt (own case_t2 ''expectedSchema'')"
    by (simp add: case_t2_def truthy_opt_def)
  have st: "own case_empty_schema ''expectedStatus'' = Some (JNum 200)"
    and sc: "own case_empty_schema ''expectedSchema'' = Some (JObj [])"
    by (simp_all add: case_empty_schema_def)
  have tr: "truthy (JObj [])"
    by simp
  have t0: "validations_of (trace ?w) = []" "validations_of (trace ?v) = []"
    "validations_of (trace ?u) = []"
    by (simp_all add: world0_def)
  have r200: "fst (run_case scripted mini_validate case_empty_schema ?w) = Inr ?r200"
    by (simp add: run_defs interpolate_def case_empty_schema_def)
  have r500: "fst (run_case scripted mini_validate case_empty_schema ?u) = Inr ?r500"
    by (simp add: run_defs interpolate_def case_empty_schema_def)
  note inst = schema_checks_before_validation
    [where net = scripted and validate = mini_validate and inp = all_defaults]
  from inst [where w = ?w, THEN conjunct1] a t0
  have 1: "validations_of (trace (snd (interactiveTest scripted mini_validate all_defaults ?w))) = []"
    by simp
  from inst [where w = ?v and t = case_t2, THEN conjunct2, THEN conjunct1] c t0
  have 2: "validations_of (trace (snd (run_case scripted mini_validate case_t2 ?v))) = []"
    by simp
  from inst [where w = ?w and t = case_empty_schema and r = ?r200 and n = 200 and schema = "JObj []",
             THEN conjunct2, THEN conjunct2] r200 st sc tr t0
  have 5: "validations_of (trace (snd (run_case scripted mini_validate case_empty_schema ?w)))
       = [(Some (JStr ''ok''), JObj [])]"
    by simp
  from inst [where w = ?u and t = case_empty_schema and r = ?r500 and n = 200 and schema = "JObj []",
             THEN conjunct2, THEN conjunct2] r500 st sc tr t0
  have 6: "validations_of (trace (snd (run_case scripted mini_validate case_empty_schema ?u))) = []"
    by simp
  have 3: "requests_of (trace (snd (interactiveTest scripted mini_validate all_defaults ?w)))
       = [\<lparr>req_method = Some (JStr ''GET''), url = Some (JStr ''https://api.example.com''),
           req_headers = JObj [], query = JObj [], body = JObj []\<rparr>]"
    by (simp add: session_defs all_defaults_def)
  show ?thesis by (intro conjI a 1 3 c 2 st sc tr r200 5 r500 6)
qed

text \<open>
  Claim C7 as stated fails in the Test Suite Runner for the empty schema: \<^verbatim>\<open>{}\<close> has no
  keys, and in this run, where the response has the expected status, the runner hands it
  to the validator.
\<close>

theorem runner_validates_empty_schema:
  "own case_empty_schema ''expectedSchema'' = Some (JObj [])
   \<and> keys_count (JObj []) = Inr 0
   \<and> validations_of (trace (snd (run_case scripted mini_validate case_empty_schema
                                    (world0 [Resolved 200 [] (JStr ''ok'')]))))
       = [(Some (JStr ''ok''), JObj [])]"
  by (simp add: run_defs interpolate_def case_empty_schema_def)

section \<open>The Interactive Session\<close>

lemma url_default_without_baseUrl_key:
  assumes "envs \<noteq> JNull" and "own envs ''baseUrl'' = None"
  shows "url_default envs = Inr (JStr fallback_url)"
  using assms by (simp add: url_default_def get_prop_Some)

text \<open>
  Claim C9 fails on the code: \<^verbatim>\<open>loadEnv\<close> returns the mapping from environment names to
  environments, and line 62 reads \<^verbatim>\<open>baseUrl\<close> from that mapping, not from a saved
  environment. After \<^verbatim>\<open>save dev\<close> with the base URL \<^verbatim>\<open>http://localhost:3000\<close>, the
  default offered at the URL prompt is still the fallback.
\<close>

theorem saved_baseUrl_not_offered:
  "files (snd (save_command ''dev''
                 \<lparr>baseUrl_input = Some ''http://localhost:3000'', apiKey_input = None\<rparr>
                 (world0 []))) ENV_FILE
     = Some (JsonText (JObj [(''dev'', JObj [(''baseUrl'', JStr ''http://localhost:3000''),
                                             (''apiKey'', JStr '''')])]))
   \<and> asks_of (trace (snd (interactiveTest scripted mini_validate all_defaults
        (snd (save_command ''dev''
                \<lparr>baseUrl_input = Some ''http://localhost:3000'', apiKey_input = None\<rparr>
                (world0 []))))))
       = [AskBaseUrl, AskApiKey, AskUrl (JStr ''https://api.example.com''),
          AskMethod, AskHeaders, AskQuery, AskSchema]"
  by (simp add: save_command_def saveEnv_def writeJson_def environment_json_def io_catch_def
        session_defs all_defaults_def)

lemma send_and_show_error:
  assumes "destructure (Some answers) = Inr req"
      and "fst (net req (server w)) = Rejected msg"
      and "msg \<noteq> []"
  shows "fst (send_and_show net validate answers schema w) = Inr ()
       \<and> trace (snd (send_and_show net validate answers schema w))
           = trace w @ [Print SendingRequest, Http req, Print (ErrorLine msg)]"
  using assms
  by (simp add: send_and_show_def io_bind_def emit_def sendRequest_unfold truthy_str_def)

text \<open>
  Claim C10 fails on the code when the transport fails with an empty message: the
  outcome has the error shape, but \<^verbatim>\<open>if (result.error)\<close> of line 104 takes the empty
  string for "no error". The session prints no error line, prints status, headers, body
  and response time (all \<^verbatim>\<open>undefined\<close>) and calls the validator on \<^verbatim>\<open>undefined\<close>. For
  every non-empty message the session ends after the error line (\<open>send_and_show_error\<close>).
\<close>

theorem empty_error_message_not_terminated:
  "fst (sendRequest scripted
          (Some (JObj [(''url'', JStr ''https://api.example.com''), (''method'', JStr ''GET'')]))
          (world0 [Rejected '''']))
     = Inr \<lparr>status = None, headers = None, data = None, responseTime = None, error = Some ''''\<rparr>
   \<and> prints_of (trace (snd (interactiveTest scripted mini_validate typed_schema (world0 [Rejected '''']))))
       = [SendingRequest, ResponseLabel, StatusLine None, HeadersLine None, BodyLine None,
          ResponseTimeLine None, SchemaValidationLabel, ValidLine True]
   \<and> validations_of (trace (snd (interactiveTest scripted mini_validate typed_schema (world0 [Rejected '''']))))
       = [(None, JObj [(''type'', JStr ''object'')])]"
  by (simp add: session_defs typed_schema_def)

end
